theory Spec2Isabelle
  imports Main "HOL-Library.Sublist"
begin

section \<open>EchoCheck server: a shallow embedding of \<open>server/index.js\<close> and its callers\<close>

text \<open>
  The server is an Express application with four routes (\<open>/upload\<close>, \<open>/check-file\<close>,
  \<open>/generate-pdf\<close>, \<open>/cleanup\<close>) and one error-handling middleware. Each route handler is
  modelled as a function from the request and the state of the world to the response and
  the new state of the world. One request is handled at a time, from its arrival to its
  response. The world is the part of the machine the handlers touch: the paths that exist
  on the file system, and the child processes that have been started. What a child process
  does (its exit status, what it prints, which files it leaves) is a parameter of the
  model, as are the platform and the directory the server runs from and the JSON parser.
\<close>

subsection \<open>JavaScript values\<close>

datatype jsvalue =
    JUndefined
  | JNull
  | JBool bool
  | JNum int
  | JStr string
  | JArr "jsvalue list"
  | JObj "(string \<times> jsvalue) list"

text \<open>The test \<open>!v\<close> of JavaScript is \<open>\<not> truthy v\<close>.\<close>

fun truthy :: "jsvalue \<Rightarrow> bool" where
  "truthy JUndefined = False"
| "truthy JNull = False"
| "truthy (JBool b) = b"
| "truthy (JNum n) = (n \<noteq> 0)"
| "truthy (JStr s) = (s \<noteq> [])"
| "truthy (JArr xs) = True"
| "truthy (JObj kvs) = True"

text \<open>
  Property access \<open>v.k\<close> on a value that is neither \<open>null\<close> nor \<open>undefined\<close>: the
  field of an object, \<open>undefined\<close> when the object has no such field or the value is a
  primitive.
\<close>

fun get_prop :: "string \<Rightarrow> jsvalue \<Rightarrow> jsvalue" where
  "get_prop k (JObj kvs) = (case map_of kvs k of Some v \<Rightarrow> v | None \<Rightarrow> JUndefined)"
| "get_prop k v = JUndefined"

subsection \<open>Strings: \<open>replace\<close>, \<open>toLowerCase\<close>, \<open>trim\<close>\<close>

text \<open>
  \<open>s.replace(pat, rep)\<close> with a string pattern replaces the first occurrence of
  \<open>pat\<close> in \<open>s\<close>, and returns \<open>s\<close> when there is none. (The replacement strings the
  server uses contain no \<open>$\<close>, so no replacement pattern is expanded.)
\<close>

fun replace_first :: "string \<Rightarrow> string \<Rightarrow> string \<Rightarrow> string" where
  "replace_first pat rep [] = (if pat = [] then rep else [])"
| "replace_first pat rep (c # cs) =
     (if prefix pat (c # cs) then rep @ drop (length pat) (c # cs)
      else c # replace_first pat rep cs)"

text \<open>
  \<open>toLowerCase\<close> on the ASCII letters; every other byte is left as it is. (JavaScript
  also maps letters outside ASCII, but none of them to \<open>r\<close>, \<open>t\<close>, \<open>f\<close> or
  \<open>.\<close>, so a comparison of the result with \<open>.rtf\<close> comes out the same.)
\<close>

definition lower_char :: "char \<Rightarrow> char" where
  "lower_char c =
     (case map_of (zip ''ABCDEFGHIJKLMNOPQRSTUVWXYZ'' ''abcdefghijklmnopqrstuvwxyz'') c of
        Some d \<Rightarrow> d
      | None \<Rightarrow> c)"

definition toLowerCase :: "string \<Rightarrow> string" where
  "toLowerCase s = map lower_char s"

text \<open>
  A string of the program is represented by the bytes of its UTF-8 form, the form in which
  a request, a response and the output of a child process carry it.
\<close>

text \<open>
  \<open>trim\<close> removes white space and line terminators at both ends: the ASCII ones, the
  no-break space, the byte order mark, the Unicode space separators and the line and
  paragraph separators. \<open>white_space\<close> lists them in UTF-8.
\<close>

definition white_space :: "string list" where
  "white_space =
     [[CHR 0x09], [CHR 0x0A], [CHR 0x0B], [CHR 0x0C], [CHR 0x0D], [CHR 0x20],
      [CHR 0xC2, CHR 0xA0],
      [CHR 0xE1, CHR 0x9A, CHR 0x80],
      [CHR 0xE2, CHR 0x80, CHR 0x80], [CHR 0xE2, CHR 0x80, CHR 0x81],
      [CHR 0xE2, CHR 0x80, CHR 0x82], [CHR 0xE2, CHR 0x80, CHR 0x83],
      [CHR 0xE2, CHR 0x80, CHR 0x84], [CHR 0xE2, CHR 0x80, CHR 0x85],
      [CHR 0xE2, CHR 0x80, CHR 0x86], [CHR 0xE2, CHR 0x80, CHR 0x87],
      [CHR 0xE2, CHR 0x80, CHR 0x88], [CHR 0xE2, CHR 0x80, CHR 0x89],
      [CHR 0xE2, CHR 0x80, CHR 0x8A],
      [CHR 0xE2, CHR 0x80, CHR 0xA8], [CHR 0xE2, CHR 0x80, CHR 0xA9],
      [CHR 0xE2, CHR 0x80, CHR 0xAF],
      [CHR 0xE2, CHR 0x81, CHR 0x9F],
      [CHR 0xE3, CHR 0x80, CHR 0x80],
      [CHR 0xEF, CHR 0xBB, CHR 0xBF]]"

text \<open>The rest of a string that starts with one of the given codes, if it does.\<close>

fun strip_code :: "string list \<Rightarrow> string \<Rightarrow> string option" where
  "strip_code [] s = None"
| "strip_code (code # codes) s =
     (if prefix code s then Some (drop (length code) s) else strip_code codes s)"

function trim_codes :: "string list \<Rightarrow> string \<Rightarrow> string" where
  "trim_codes codes s =
     (case strip_code codes s of
        None \<Rightarrow> s
      | Some r \<Rightarrow> if length r < length s then trim_codes codes r else s)"
  by pat_completeness auto
termination
  by (relation "measure (\<lambda>(codes, s). length s)") auto

definition trim :: "string \<Rightarrow> string" where
  "trim s = rev (trim_codes (map rev white_space) (rev (trim_codes white_space s)))"

subsection \<open>Node's \<open>path\<close> module\<close>

text \<open>
  The functions of \<open>path\<close> come in two flavours, and Node chooses one by the platform
  it runs on: \<open>path.posix\<close>, where \<open>/\<close> is the only separator, and \<open>path.win32\<close>,
  where \<open>/\<close> and the backslash both separate, the backslash is written, and a path may
  start with a drive (\<open>C:\<close>) or a UNC root. The platform is a parameter of the model.
\<close>

datatype platform = Posix | Win32

fun is_sep :: "platform \<Rightarrow> char \<Rightarrow> bool" where
  "is_sep Posix c = (c = CHR ''/'')"
| "is_sep Win32 c = (c = CHR ''/'' \<or> c = CHR 0x5C)"

fun sep_of :: "platform \<Rightarrow> char" where
  "sep_of Posix = CHR ''/''"
| "sep_of Win32 = CHR 0x5C"

text \<open>
  A path is split at every separator; the segments between two separators may be empty.
\<close>

fun split_sep :: "platform \<Rightarrow> string \<Rightarrow> string list" where
  "split_sep pl [] = [[]]"
| "split_sep pl (c # cs) =
     (if is_sep pl c then [] # split_sep pl cs
      else (case split_sep pl cs of
              [] \<Rightarrow> [[c]]
            | s # ss \<Rightarrow> (c # s) # ss))"

fun join_sep :: "platform \<Rightarrow> string list \<Rightarrow> string" where
  "join_sep pl [] = []"
| "join_sep pl [s] = s"
| "join_sep pl (s # t # ss) = s @ sep_of pl # join_sep pl (t # ss)"

text \<open>
  \<open>normalizeString\<close> walks the segments from left to right and keeps the segments of
  the result so far: an empty segment and \<open>.\<close> are dropped, \<open>..\<close> removes the last
  segment kept (unless that is itself \<open>..\<close>), and is kept only when the path may climb
  above its start (\<open>allowAboveRoot\<close>, which \<open>normalize\<close> sets for relative paths).
\<close>

fun normalizeString :: "bool \<Rightarrow> string list \<Rightarrow> string list \<Rightarrow> string list" where
  "normalizeString allowAboveRoot res [] = res"
| "normalizeString allowAboveRoot res (s # ss) =
     (if s = [] \<or> s = ''.'' then normalizeString allowAboveRoot res ss
      else if s = ''..'' then
        (if res \<noteq> [] \<and> last res \<noteq> ''..'' then normalizeString allowAboveRoot (butlast res) ss
         else if allowAboveRoot then normalizeString allowAboveRoot (res @ [''..'']) ss
         else normalizeString allowAboveRoot res ss)
      else normalizeString allowAboveRoot (res @ [s]) ss)"

definition posix_normalize :: "string \<Rightarrow> string" where
  "posix_normalize p =
     (if p = [] then ''.''
      else
        let isAbsolute = (hd p = CHR ''/'');
            trailingSeparator = (last p = CHR ''/'');
            res = join_sep Posix (normalizeString (\<not> isAbsolute) [] (split_sep Posix p))
        in if res = [] then (if isAbsolute then ''/'' else if trailingSeparator then ''./'' else ''.'')
           else (if isAbsolute then ''/'' else []) @ res @ (if trailingSeparator then ''/'' else []))"

text \<open>
  \<open>path.posix.join(a, b, ...)\<close>: the non-empty arguments joined by \<open>/\<close>, then
  normalised.
\<close>

definition posix_join :: "string list \<Rightarrow> string" where
  "posix_join args =
     (let joined = filter (\<lambda>a. a \<noteq> []) args
      in if joined = [] then ''.'' else posix_normalize (join_sep Posix joined))"

text \<open>
  The root of a Windows path, as \<open>path.win32.normalize\<close> finds it. A path that starts
  with two separators, a server name, separators and a share name has the UNC root made
  of the two names; when nothing follows the share name the normal form is that root
  (\<open>RootOnly\<close>). Otherwise the root is a device, if any, whether the path is absolute,
  and the position where the rest of the path begins.
\<close>

definition isWindowsDeviceRoot :: "char \<Rightarrow> bool" where
  "isWindowsDeviceRoot c =
     (c \<in> set ''ABCDEFGHIJKLMNOPQRSTUVWXYZabcdefghijklmnopqrstuvwxyz'')"

datatype win32_root = RootOnly string | Root "string option" bool nat

definition win32_root :: "string \<Rightarrow> win32_root" where
  "win32_root path =
     (case path of
        c0 # c1 # rest \<Rightarrow>
          if is_sep Win32 c0 then
            (if is_sep Win32 c1 then
               (let firstPart = takeWhile (\<lambda>c. \<not> is_sep Win32 c) rest;
                    j1 = 2 + length firstPart;
                    j2 = j1 + length (takeWhile (is_sep Win32) (drop j1 path));
                    secondPart = takeWhile (\<lambda>c. \<not> is_sep Win32 c) (drop j2 path);
                    j3 = j2 + length secondPart
                in if firstPart \<noteq> [] \<and> j1 < length path \<and> j2 < length path
                   then (if j3 = length path
                         then RootOnly ([CHR 0x5C, CHR 0x5C] @ firstPart @ [CHR 0x5C] @ secondPart
                                        @ [CHR 0x5C])
                         else Root (Some ([CHR 0x5C, CHR 0x5C] @ firstPart @ [CHR 0x5C] @ secondPart))
                                True j3)
                   else Root None True 0)
             else Root None True 1)
          else if isWindowsDeviceRoot c0 \<and> c1 = CHR '':'' then
            (case rest of
               c2 # _ \<Rightarrow> if is_sep Win32 c2 then Root (Some [c0, c1]) True 3
                         else Root (Some [c0, c1]) False 2
             | [] \<Rightarrow> Root (Some [c0, c1]) False 2)
          else Root None False 0
      | _ \<Rightarrow> Root None False 0)"

text \<open>
  \<open>path.win32.normalize\<close>. (For a path that is not absolute, recent versions of Node
  treat a colon and the reserved device names in a special way; that is not modelled.
  Every path the server builds starts with its own directory, which is absolute.)
\<close>

definition win32_normalize :: "string \<Rightarrow> string" where
  "win32_normalize path =
     (case path of
        [] \<Rightarrow> ''.''
      | [c] \<Rightarrow> (if c = CHR ''/'' then [CHR 0x5C] else [c])
      | _ \<Rightarrow>
          (case win32_root path of
             RootOnly r \<Rightarrow> r
           | Root device isAbsolute rootEnd \<Rightarrow>
               let tail0 = (if rootEnd < length path
                            then join_sep Win32
                                   (normalizeString (\<not> isAbsolute) [] (split_sep Win32 (drop rootEnd path)))
                            else []);
                   tail1 = (if tail0 = [] \<and> \<not> isAbsolute then ''.'' else tail0);
                   tail = (if tail1 \<noteq> [] \<and> is_sep Win32 (last path) then tail1 @ [CHR 0x5C]
                           else tail1)
               in (case device of
                     None \<Rightarrow> (if isAbsolute then CHR 0x5C # tail else tail)
                   | Some d \<Rightarrow> (if isAbsolute then d @ CHR 0x5C # tail else d @ tail))))"

text \<open>
  \<open>path.win32.join(a, b, ...)\<close>: the non-empty arguments joined by a backslash; when the
  first of them does not start with exactly two separators (a UNC path), several separators
  at the start are replaced by one, so that \<open>normalize\<close> does not take them for a UNC
  root; then normalised.
\<close>

definition win32_join :: "string list \<Rightarrow> string" where
  "win32_join args =
     (case filter (\<lambda>a. a \<noteq> []) args of
        [] \<Rightarrow> ''.''
      | firstPart # others \<Rightarrow>
          let joined = join_sep Win32 (firstPart # others);
              unc = (case firstPart of
                       a # b # c # _ \<Rightarrow> is_sep Win32 a \<and> is_sep Win32 b \<and> \<not> is_sep Win32 c
                     | _ \<Rightarrow> False);
              slashCount = length (takeWhile (is_sep Win32) joined)
          in win32_normalize
               (if \<not> unc \<and> 2 \<le> slashCount then CHR 0x5C # drop slashCount joined else joined))"

fun path_join :: "platform \<Rightarrow> string list \<Rightarrow> string" where
  "path_join Posix args = posix_join args"
| "path_join Win32 args = win32_join args"

text \<open>
  \<open>path.basename(p)\<close>: the part after the last separator, trailing separators ignored;
  on Windows a drive at the start is not part of it.
\<close>

fun skip_drive :: "platform \<Rightarrow> string \<Rightarrow> string" where
  "skip_drive Win32 (c0 # c1 # rest) =
     (if isWindowsDeviceRoot c0 \<and> c1 = CHR '':'' then rest else c0 # c1 # rest)"
| "skip_drive pl p = p"

definition basename :: "platform \<Rightarrow> string \<Rightarrow> string" where
  "basename pl p =
     (let t = rev (dropWhile (is_sep pl) (rev (skip_drive pl p)))
      in if t = [] then [] else last (split_sep pl t))"

text \<open>
  \<open>path.extname(p)\<close>: from the last \<open>.\<close> of the base name to its end; empty when the
  base name has no \<open>.\<close>, when its only \<open>.\<close> is its first character, and for \<open>..\<close>.
\<close>

definition extname :: "platform \<Rightarrow> string \<Rightarrow> string" where
  "extname pl p =
     (let b = basename pl p;
          ext = CHR ''.'' # rev (takeWhile (\<lambda>c. c \<noteq> CHR ''.'') (rev b))
      in if CHR ''.'' \<notin> set b then []
         else if length ext = length b then []
         else if b = ''..'' then []
         else ext)"

subsection \<open>The world: file system and child processes\<close>

text \<open>
  \<open>files\<close> lists the paths that exist. \<open>spawned\<close> is the trace of the child processes
  started so far, oldest first, each as its command line. The operations on the file
  system do not fail, and a child process that is spawned starts and closes: an
  \<open>fs.remove\<close> that rejects and a \<open>python\<close> that cannot be started are outside the
  model.
\<close>

record world =
  files :: "string list"
  spawned :: "string list list"

text \<open>
  What a child process does: the exit status passed to the \<open>close\<close> listener (\<open>None\<close>
  for \<open>null\<close>, a process ended by a signal), the text it wrote on standard output and on
  standard error, and the paths that exist when it has ended.
\<close>

record proc_result =
  exit_code :: "int option"
  out :: string
  err :: string
  files_after :: "string list"

record env =
  platform :: platform
  dirname :: string
  run :: "string list \<Rightarrow> string list \<Rightarrow> proc_result"
  json_parse :: "string \<Rightarrow> jsvalue option"

definition pathExists :: "string \<Rightarrow> world \<Rightarrow> bool" where
  "pathExists p w = (p \<in> set (files w))"

text \<open>
  \<open>fs.remove(p)\<close> removes \<open>p\<close> and, when it is a directory, everything below it:
  the paths that continue \<open>p\<close> after the separator the platform writes.
\<close>

definition remove :: "platform \<Rightarrow> string \<Rightarrow> world \<Rightarrow> world" where
  "remove pl p w =
     w\<lparr>files := filter (\<lambda>q. q \<noteq> p \<and> \<not> prefix (p @ [sep_of pl]) q) (files w)\<rparr>"

text \<open>
  \<open>spawn(cmd, args)\<close> followed by the \<open>close\<close> event of the child: the command line is
  added to the trace, and the file system is the one the child leaves.
\<close>

definition spawn :: "env \<Rightarrow> string list \<Rightarrow> world \<Rightarrow> proc_result \<times> world" where
  "spawn e argv w =
     (let r = run e argv (files w)
      in (r, w\<lparr>files := files_after r, spawned := spawned w @ [argv]\<rparr>))"

subsection \<open>Responses\<close>

datatype body =
    Json jsvalue
  | Download string string

record response =
  status :: nat
  body :: body

definition json_error :: "nat \<Rightarrow> string \<Rightarrow> response" where
  "json_error code msg = \<lparr>status = code, body = Json (JObj [(''error'', JStr msg)])\<rparr>"

text \<open>The JSON value a response carries, \<open>undefined\<close> for a file download.\<close>

definition json_of :: "response \<Rightarrow> jsvalue" where
  "json_of r = (case body r of Json v \<Rightarrow> v | Download p n \<Rightarrow> JUndefined)"

subsection \<open>Paths the server computes\<close>

definition uploadsDir :: "env \<Rightarrow> string" where
  "uploadsDir e = path_join (platform e) [dirname e, ''uploads'']"

definition pythonScript :: "env \<Rightarrow> string" where
  "pythonScript e = path_join (platform e) [dirname e, ''..'', ''python'', ''ef_checker.py'']"

definition convertScript :: "env \<Rightarrow> string" where
  "convertScript e = path_join (platform e) [dirname e, ''..'', ''python'', ''convert_rtf_to_docx.py'']"

definition pdfScript :: "env \<Rightarrow> string" where
  "pdfScript e = path_join (platform e) [dirname e, ''..'', ''python'', ''generate_pdf.py'']"

definition rtfPath :: "env \<Rightarrow> string \<Rightarrow> string" where
  "rtfPath e filename = path_join (platform e) [uploadsDir e, filename]"

definition docxPath :: "env \<Rightarrow> string \<Rightarrow> string" where
  "docxPath e filename = replace_first ''.rtf'' ''.docx'' (rtfPath e filename)"

definition pdfPath :: "env \<Rightarrow> string \<Rightarrow> string" where
  "pdfPath e filename = replace_first ''.docx'' ''.pdf'' (docxPath e filename)"

definition convert_argv :: "env \<Rightarrow> string \<Rightarrow> string list" where
  "convert_argv e filename = [''python'', convertScript e, rtfPath e filename, docxPath e filename]"

definition pdf_argv :: "env \<Rightarrow> string \<Rightarrow> string list" where
  "pdf_argv e filename = [''python'', pdfScript e, docxPath e filename, pdfPath e filename]"

subsection \<open>\<open>POST /generate-pdf\<close>\<close>

text \<open>
  The handler reads \<open>filename\<close> from the request body. A missing or empty file name is
  answered with 400, a name of no existing file with 404. A value that is not a string
  makes \<open>path.join\<close> throw, which the handler's \<open>catch\<close> answers with 500. Then the
  conversion to DOCX is started; when it has closed with exit status 0 the PDF generation
  is started; when that has closed with exit status 0 and the PDF exists, the PDF is sent
  and the DOCX and the PDF are removed.
\<close>

definition generate_pdf :: "env \<Rightarrow> jsvalue \<Rightarrow> world \<Rightarrow> response \<times> world" where
  "generate_pdf e filename w =
     (if \<not> truthy filename then (json_error 400 ''Filename is required'', w)
      else case filename of
        JStr f \<Rightarrow>
          if \<not> pathExists (rtfPath e f) w then (json_error 404 ''File not found'', w)
          else
            let (r1, w1) = spawn e (convert_argv e f) w
            in if exit_code r1 \<noteq> Some 0
               then (json_error 500 ''RTF to DOCX conversion failed'', w1)
               else
                 let (r2, w2) = spawn e (pdf_argv e f) w1
                 in if exit_code r2 \<noteq> Some 0
                    then (json_error 500 ''PDF generation failed'', w2)
                    else if pathExists (pdfPath e f) w2
                    then (\<lparr>status = 200, body = Download (pdfPath e f) (basename (platform e) (pdfPath e f))\<rparr>,
                          remove (platform e) (pdfPath e f) (remove (platform e) (docxPath e f) w2))
                    else (json_error 500 ''PDF file was not created'', w2)
      | _ \<Rightarrow> (json_error 500 ''PDF generation failed'', w))"

subsection \<open>\<open>POST /check-file\<close>\<close>

text \<open>
  The checker script is started on the file; its standard output and standard error are
  collected. A non-zero exit status is answered with 500 and the text of standard error,
  output that is not JSON with 500 and the text of standard output, and JSON output is
  sent back as it was parsed.
\<close>

definition check_file :: "env \<Rightarrow> jsvalue \<Rightarrow> world \<Rightarrow> response \<times> world" where
  "check_file e filename w =
     (if \<not> truthy filename then (json_error 400 ''Filename is required'', w)
      else case filename of
        JStr f \<Rightarrow>
          let filePath = path_join (platform e) [uploadsDir e, f]
          in if \<not> pathExists filePath w then (json_error 404 ''File not found'', w)
             else
               let (r, w1) = spawn e [''python'', pythonScript e, filePath] w
               in if exit_code r \<noteq> Some 0
                  then (\<lparr>status = 500,
                         body = Json (JObj [(''error'', JStr ''EF check failed''),
                                            (''details'', JStr (err r))])\<rparr>, w1)
                  else (case json_parse e (trim (out r)) of
                          Some result \<Rightarrow> (\<lparr>status = 200, body = Json result\<rparr>, w1)
                        | None \<Rightarrow>
                            (\<lparr>status = 500,
                              body = Json (JObj [(''error'', JStr ''Failed to parse EF check results''),
                                                 (''details'', JStr (out r))])\<rparr>, w1))
      | _ \<Rightarrow> (json_error 500 ''EF check failed'', w))"

subsection \<open>\<open>POST /cleanup\<close>\<close>

definition cleanup :: "env \<Rightarrow> jsvalue \<Rightarrow> world \<Rightarrow> response \<times> world" where
  "cleanup e filename w =
     (if \<not> truthy filename then (json_error 400 ''Filename is required'', w)
      else case filename of
        JStr f \<Rightarrow>
          let filePath = path_join (platform e) [uploadsDir e, f]
          in if pathExists filePath w
             then (\<lparr>status = 200,
                    body = Json (JObj [(''success'', JBool True),
                                       (''message'', JStr ''File cleaned up successfully'')])\<rparr>,
                   remove (platform e) filePath w)
             else (json_error 404 ''File not found'', w)
      | _ \<Rightarrow> (json_error 500 ''Cleanup failed'', w))"

subsection \<open>\<open>POST /upload\<close>\<close>

text \<open>
  The file part of a multipart request, as \<open>multer\<close> sees it: the form field it came in,
  the file name the client gave, the content type the client gave, and its length in
  bytes.
\<close>

record upload_file =
  fieldname :: string
  originalname :: string
  mimetype :: string
  size_bytes :: nat

datatype upload_error = MulterError string | PlainError string

definition fileSize_limit :: nat where
  "fileSize_limit = 10 * 1024 * 1024"

text \<open>The \<open>fileFilter\<close> option: \<open>None\<close> accepts the file, \<open>Some err\<close> refuses it.\<close>

definition fileFilter :: "platform \<Rightarrow> upload_file \<Rightarrow> upload_error option" where
  "fileFilter pl file =
     (if mimetype file = ''application/rtf'' \<or>
         toLowerCase (extname pl (originalname file)) = ''.rtf''
      then None
      else Some (PlainError ''Only RTF files are allowed''))"

text \<open>
  The \<open>filename\<close> option of the disk storage. \<open>uniqueSuffix\<close> stands for the text
  \<open>Date.now() + '-' + Math.round(Math.random() * 1E9)\<close>.
\<close>

definition storage_filename :: "platform \<Rightarrow> string \<Rightarrow> upload_file \<Rightarrow> string" where
  "storage_filename pl uniqueSuffix file =
     fieldname file @ ''-'' @ uniqueSuffix @ extname pl (originalname file)"

text \<open>
  \<open>upload.single('rtfFile')\<close>, for a request with at most one file part: a file in
  another field is refused as unexpected; then the file filter is asked; then the file is
  written to the disk storage, which stops with \<open>LIMIT_FILE_SIZE\<close>, leaving nothing
  behind, when the file is longer than the limit. On success \<open>req.file\<close> is the stored
  file under its new name. (Whether a file of exactly the limit is stored depends on the
  version of the multipart parser; the model stores it, and nothing below depends on it.)
\<close>

definition upload_single ::
    "env \<Rightarrow> string \<Rightarrow> upload_file option \<Rightarrow> world \<Rightarrow> (upload_error + (string \<times> upload_file) option) \<times> world" where
  "upload_single e uniqueSuffix part w =
     (case part of
        None \<Rightarrow> (Inr None, w)
      | Some file \<Rightarrow>
          if fieldname file \<noteq> ''rtfFile'' then (Inl (MulterError ''LIMIT_UNEXPECTED_FILE''), w)
          else (case fileFilter (platform e) file of
                  Some er \<Rightarrow> (Inl er, w)
                | None \<Rightarrow>
                    if size_bytes file > fileSize_limit then (Inl (MulterError ''LIMIT_FILE_SIZE''), w)
                    else
                      let name = storage_filename (platform e) uniqueSuffix file
                      in (Inr (Some (name, file)),
                          w\<lparr>files := List.insert (path_join (platform e) [uploadsDir e, name]) (files w)\<rparr>)))"

text \<open>The error-handling middleware, the last one of the application.\<close>

definition error_middleware :: "upload_error \<Rightarrow> response" where
  "error_middleware er =
     (if er = MulterError ''LIMIT_FILE_SIZE'' then json_error 400 ''File too large''
      else json_error 500 ''Internal server error'')"

definition upload :: "env \<Rightarrow> string \<Rightarrow> upload_file option \<Rightarrow> world \<Rightarrow> response \<times> world" where
  "upload e uniqueSuffix part w =
     (case upload_single e uniqueSuffix part w of
        (Inl er, w1) \<Rightarrow> (error_middleware er, w1)
      | (Inr None, w1) \<Rightarrow> (json_error 400 ''No file uploaded'', w1)
      | (Inr (Some (name, file)), w1) \<Rightarrow>
          (\<lparr>status = 200,
            body = Json (JObj [(''success'', JBool True),
                               (''message'', JStr ''File uploaded successfully''),
                               (''filename'', JStr name),
                               (''originalName'', JStr (originalname file)),
                               (''size'', JNum (int (size_bytes file)))])\<rparr>, w1))"

subsection \<open>The client: \<open>FileUploader.onDrop\<close> and \<open>ActionButtons.handleGeneratePdf\<close>\<close>

text \<open>
  What a client handler did: it told the user something without any request
  (\<open>Told\<close>), or it sent a request and got the server's response (\<open>Requested\<close>).
\<close>

datatype client_outcome = Told string | Requested response

text \<open>
  A file in the browser: its name, its type and its length in bytes. When it is sent in
  a form, the content type of its part is its type, or \<open>application/octet-stream\<close>
  when it has none.
\<close>

record browser_file =
  name :: string
  type :: string
  size_b :: nat

definition onDrop :: "env \<Rightarrow> string \<Rightarrow> browser_file option \<Rightarrow> world \<Rightarrow> client_outcome \<times> world" where
  "onDrop e uniqueSuffix acceptedFile w =
     (case acceptedFile of
        None \<Rightarrow> (Told ''No file selected'', w)
      | Some file \<Rightarrow>
          if \<not> suffix ''.rtf'' (toLowerCase (name file)) then (Told ''Please select an RTF file'', w)
          else if size_b file > 10 * 1024 * 1024 then (Told ''File size must be less than 10MB'', w)
          else
            let (resp, w1) =
                  upload e uniqueSuffix
                    (Some \<lparr>fieldname = ''rtfFile'', originalname = name file,
                           mimetype = (if type file = [] then ''application/octet-stream''
                                       else type file),
                           size_bytes = size_b file\<rparr>) w
            in (Requested resp, w1))"

definition handleGeneratePdf :: "env \<Rightarrow> jsvalue \<Rightarrow> jsvalue \<Rightarrow> world \<Rightarrow> client_outcome \<times> world" where
  "handleGeneratePdf e results filename w =
     (if get_prop ''status'' results \<noteq> JStr ''good''
      then (Told ''PDF generation is only available when EF values are consistent.'', w)
      else
        let (resp, w1) = generate_pdf e filename w
        in (Requested resp, w1))"

subsection \<open>The consistency evaluator\<close>

datatype ef_value = Missing | Percent int

datatype ef_status = Good | Discordant | Incomplete | Error

datatype extraction = StructuralError | Extracted ef_value ef_value ef_value

text \<open>
  Modelled from the spec: the consistency evaluator of \<open>python/ef_checker.py\<close>, the
  script that \<open>/check-file\<close> starts, which is not among the sources. The rules are those
  of the specification, in their order of priority: a structural error of the extraction
  gives \<open>Error\<close>; a missing value among the three (conclusion, body, calculations table)
  gives \<open>Incomplete\<close>; three equal values give \<open>Good\<close>; anything else gives
  \<open>Discordant\<close>.
\<close>

fun evaluate :: "extraction \<Rightarrow> ef_status" where
  "evaluate StructuralError = Error"
| "evaluate (Extracted (Percent c) (Percent b) (Percent t)) =
     (if c = b \<and> b = t then Good else Discordant)"
| "evaluate (Extracted c b t) = Incomplete"

subsection \<open>Predicates on paths\<close>

text \<open>
  A path segment that names an entry: not empty, not \<open>.\<close>, not \<open>..\<close>, no separator.
\<close>

definition clean_seg :: "platform \<Rightarrow> string \<Rightarrow> bool" where
  "clean_seg pl s = (s \<noteq> [] \<and> s \<noteq> ''.'' \<and> s \<noteq> ''..'' \<and> (\<forall>c\<in>set s. \<not> is_sep pl c))"

text \<open>
  A file name that stays below the directory it is joined to: split at the separators of
  the platform, it has no segment \<open>..\<close> and at least one segment that names an entry.
\<close>

definition proper_name :: "platform \<Rightarrow> string \<Rightarrow> bool" where
  "proper_name pl f =
     (''..'' \<notin> set (split_sep pl f) \<and>
      filter (\<lambda>s. s \<noteq> [] \<and> s \<noteq> ''.'') (split_sep pl f) \<noteq> [])"

text \<open>A path lies below a directory: the directory, a separator, and more.\<close>

definition below :: "platform \<Rightarrow> string \<Rightarrow> string \<Rightarrow> bool" where
  "below pl dir p = (prefix (dir @ [sep_of pl]) p \<and> length dir + 1 < length p)"

text \<open>
  The directory of the server, \<open>__dirname\<close>, is absolute: on a POSIX system it starts
  with \<open>/\<close>; on Windows it starts with a drive and a separator, or with a UNC root.
\<close>

fun absolute_dir :: "platform \<Rightarrow> string \<Rightarrow> bool" where
  "absolute_dir Posix d = prefix ''/'' d"
| "absolute_dir Win32 d =
     (case win32_root d of
        RootOnly r \<Rightarrow> True
      | Root device isAbsolute rootEnd \<Rightarrow> device \<noteq> None \<and> isAbsolute)"

text \<open>
  The normal form of the part of an absolute path that follows its root: the segments
  that remain, joined, and a separator at the end when the path ends with one.
\<close>

definition norm_tail :: "platform \<Rightarrow> string \<Rightarrow> string" where
  "norm_tail pl p =
     (let t = join_sep pl (normalizeString False [] (split_sep pl p))
      in if t \<noteq> [] \<and> p \<noteq> [] \<and> is_sep pl (last p) then t @ [sep_of pl] else t)"

subsection \<open>An example installation\<close>

text \<open>
  A server installed in \<open>/srv/app/server\<close>, with one uploaded report \<open>r.rtf\<close>. The three
  scripts end with the exit statuses given; the checker prints \<open>text\<close> on both of its
  streams; a conversion script that ends with status 0 has created its output file, the
  last word of its command line.
\<close>

definition demo_run ::
    "platform \<Rightarrow> int \<Rightarrow> int \<Rightarrow> int \<Rightarrow> string \<Rightarrow> string list \<Rightarrow> string list \<Rightarrow> proc_result" where
  "demo_run pl check_code convert_code pdf_code text argv fs =
     (if length argv = 3
      then \<lparr>exit_code = Some check_code, out = text, err = text, files_after = fs\<rparr>
      else
        let code = (if basename pl (argv ! 1) = ''convert_rtf_to_docx.py'' then convert_code
                    else pdf_code)
        in \<lparr>exit_code = Some code, out = [], err = [],
            files_after = (if code = 0 then List.insert (last argv) fs else fs)\<rparr>)"

definition demo_parse :: "string \<Rightarrow> jsvalue option" where
  \<open>demo_parse s =
     (if s = ''{"status": "good"}'' then Some (JObj [(''status'', JStr ''good'')])
      else if s = ''{"status": "discordant"}'' then Some (JObj [(''status'', JStr ''discordant'')])
      else None)\<close>

definition demo_env :: "int \<Rightarrow> int \<Rightarrow> int \<Rightarrow> string \<Rightarrow> env" where
  "demo_env check_code convert_code pdf_code text =
     \<lparr>platform = Posix,
      dirname = ''/srv/app/server'',
      run = demo_run Posix check_code convert_code pdf_code text,
      json_parse = demo_parse\<rparr>"

definition demo_world :: world where
  "demo_world =
     \<lparr>files = [''/srv/app/server/index.js'', ''/srv/app/server/uploads/r.rtf''], spawned = []\<rparr>"

text \<open>
  The same files with the uploads directory itself and two reports in it.
\<close>

definition demo_world_two :: world where
  "demo_world_two =
     \<lparr>files = [''/srv/app/server/index.js'', ''/srv/app/server/uploads'',
               ''/srv/app/server/uploads/a.rtf'', ''/srv/app/server/uploads/b.rtf''],
      spawned = []\<rparr>"

text \<open>
  The same installation on a drive \<open>C:\<close> of Windows. \<open>to_win\<close> writes a
  Windows path from its spelling with \<open>/\<close>.
\<close>

definition to_win :: "string \<Rightarrow> string" where
  "to_win s = map (\<lambda>c. if c = CHR ''/'' then CHR 0x5C else c) s"

definition demo_env_win :: env where
  "demo_env_win =
     \<lparr>platform = Win32,
      dirname = to_win ''C:/app/server'',
      run = demo_run Win32 0 0 0 [],
      json_parse = demo_parse\<rparr>"

definition demo_world_win :: world where
  "demo_world_win =
     \<lparr>files = [to_win ''C:/app/server/index.js'', to_win ''C:/app/server/uploads/r.rtf''],
      spawned = []\<rparr>"

section \<open>Properties\<close>

subsection \<open>The consistency evaluator\<close>

text \<open>
  C3. For every triple of extracted EF values (conclusion, body, calculations table): when
  one of the three is missing the status is \<open>Incomplete\<close>, whatever the other two are;
  otherwise, when the three numbers are equal the status is \<open>Good\<close>; otherwise it is
  \<open>Discordant\<close>.
\<close>

theorem evaluate_rules:
  "evaluate (Extracted c b t) =
     (if c = Missing \<or> b = Missing \<or> t = Missing then Incomplete
      else if c = b \<and> b = t then Good
      else Discordant)"
  by (cases c; cases b; cases t) simp_all

subsection \<open>The order of the conversion stages\<close>

text \<open>
  C4. A run of \<open>/generate-pdf\<close> adds to the trace of child processes nothing, or the
  conversion to DOCX alone, or the conversion to DOCX followed by the PDF generation; and
  the PDF generation is only started when the conversion to DOCX, run on the files the
  request found, has closed with exit status 0.
\<close>

theorem generate_pdf_stages_sequential:
  "\<exists>new. spawned (snd (generate_pdf e filename w)) = spawned w @ new \<and>
     (new = [] \<or>
      (\<exists>f. filename = JStr f \<and>
         (new = [convert_argv e f] \<or>
          (new = [convert_argv e f, pdf_argv e f] \<and>
           exit_code (run e (convert_argv e f) (files w)) = Some 0))))"
  by (cases filename) (simp_all add: generate_pdf_def spawn_def remove_def Let_def)

subsection \<open>Generating a PDF for a report that is not consistent\<close>

text \<open>
  C1, as the code has it. The button handler of the client sends no request when the
  status of the last check is not \<open>good\<close>: it tells the user so, and the world is left
  as it was, with no child process started and no file created.
\<close>

theorem handleGeneratePdf_blocked:
  "get_prop ''status'' results \<noteq> JStr ''good'' \<Longrightarrow>
     handleGeneratePdf e results filename w =
       (Told ''PDF generation is only available when EF values are consistent.'', w)"
  by (simp add: handleGeneratePdf_def)

theorem handleGeneratePdf_blocked_witness:
  "get_prop ''status'' (JObj [(''status'', JStr ''discordant'')]) \<noteq> JStr ''good'' \<and>
   handleGeneratePdf (demo_env 0 0 0 []) (JObj [(''status'', JStr ''discordant'')])
       (JStr ''r.rtf'') demo_world =
     (Told ''PDF generation is only available when EF values are consistent.'', demo_world)"
proof -
  have h: "get_prop ''status'' (JObj [(''status'', JStr ''discordant'')]) \<noteq> JStr ''good''"
    by simp
  from handleGeneratePdf_blocked [OF h] show ?thesis
    using h by blast
qed

text \<open>
  The server's handler takes the file name alone and knows no status. In the example
  installation the check of \<open>r.rtf\<close> answers \<open>discordant\<close>; a request to
  \<open>/generate-pdf\<close> for \<open>r.rtf\<close> that follows it runs both conversion scripts and
  sends the PDF.
\<close>

theorem generate_pdf_not_gated_counterexample:
  \<open>fst (check_file (demo_env 0 0 0 ''{"status": "discordant"}'') (JStr ''r.rtf'') demo_world) =
     \<lparr>status = 200, body = Json (JObj [(''status'', JStr ''discordant'')])\<rparr> \<and>
   fst (generate_pdf (demo_env 0 0 0 ''{"status": "discordant"}'') (JStr ''r.rtf'')
          (snd (check_file (demo_env 0 0 0 ''{"status": "discordant"}'') (JStr ''r.rtf'') demo_world))) =
     \<lparr>status = 200, body = Download ''/srv/app/server/uploads/r.pdf'' ''r.pdf''\<rparr> \<and>
   spawned (snd (generate_pdf (demo_env 0 0 0 ''{"status": "discordant"}'') (JStr ''r.rtf'')
          (snd (check_file (demo_env 0 0 0 ''{"status": "discordant"}'') (JStr ''r.rtf'') demo_world)))) =
     [[''python'', ''/srv/app/python/ef_checker.py'', ''/srv/app/server/uploads/r.rtf''],
      [''python'', ''/srv/app/python/convert_rtf_to_docx.py'', ''/srv/app/server/uploads/r.rtf'',
       ''/srv/app/server/uploads/r.docx''],
      [''python'', ''/srv/app/python/generate_pdf.py'', ''/srv/app/server/uploads/r.docx'',
       ''/srv/app/server/uploads/r.pdf'']]\<close>
  by code_simp

subsection \<open>A stage that fails\<close>

text \<open>
  C2, at a failing run. In the example installation the conversion to DOCX ends with
  status 0 and creates \<open>r.docx\<close>, and the PDF generation ends with status 1. The
  request is answered with 500, and \<open>r.docx\<close> is still on the disk: the handler
  removes the DOCX and the PDF only after it has sent the PDF, and returns at once on
  each failure.
\<close>

theorem generate_pdf_failure_leaves_docx:
  "generate_pdf (demo_env 0 0 1 []) (JStr ''r.rtf'') demo_world =
     (\<lparr>status = 500, body = Json (JObj [(''error'', JStr ''PDF generation failed'')])\<rparr>,
      \<lparr>files = [''/srv/app/server/uploads/r.docx'', ''/srv/app/server/index.js'',
                ''/srv/app/server/uploads/r.rtf''],
        spawned = [[''python'', ''/srv/app/python/convert_rtf_to_docx.py'',
                    ''/srv/app/server/uploads/r.rtf'', ''/srv/app/server/uploads/r.docx''],
                   [''python'', ''/srv/app/python/generate_pdf.py'',
                    ''/srv/app/server/uploads/r.docx'', ''/srv/app/server/uploads/r.pdf'']]\<rparr>)"
  by code_simp

text \<open>
  C5, as the code has it. For a request that names an existing file, the response to a
  failure is a status 500 with a body that has one field, \<open>error\<close>, holding a fixed
  message: \<open>RTF to DOCX conversion failed\<close> when the first stage ends with a status
  other than 0, \<open>PDF generation failed\<close> when the second does, and
  \<open>PDF file was not created\<close> when both end with 0 and the PDF does not exist. The
  response depends on the exit statuses and on the existence of the PDF alone: nothing
  the stages printed is in it, and it has no \<open>stage\<close> and no \<open>reason\<close> field.
\<close>

theorem generate_pdf_failure_responses:
  assumes "f \<noteq> []" and "pathExists (rtfPath e f) w"
  shows "fst (generate_pdf e (JStr f) w) =
     (if exit_code (fst (spawn e (convert_argv e f) w)) \<noteq> Some 0
      then json_error 500 ''RTF to DOCX conversion failed''
      else if exit_code (fst (spawn e (pdf_argv e f) (snd (spawn e (convert_argv e f) w)))) \<noteq> Some 0
      then json_error 500 ''PDF generation failed''
      else if pathExists (pdfPath e f) (snd (spawn e (pdf_argv e f) (snd (spawn e (convert_argv e f) w))))
      then \<lparr>status = 200, body = Download (pdfPath e f) (basename (platform e) (pdfPath e f))\<rparr>
      else json_error 500 ''PDF file was not created'') \<and>
     get_prop ''stage'' (json_of (fst (generate_pdf e (JStr f) w))) = JUndefined \<and>
     get_prop ''reason'' (json_of (fst (generate_pdf e (JStr f) w))) = JUndefined"
  using assms
  by (simp add: generate_pdf_def Let_def json_of_def json_error_def split: prod.splits)

theorem generate_pdf_failure_responses_witness:
  "''r.rtf'' \<noteq> [] \<and> pathExists (rtfPath (demo_env 0 1 0 []) ''r.rtf'') demo_world \<and>
   fst (generate_pdf (demo_env 0 1 0 []) (JStr ''r.rtf'') demo_world) =
     json_error 500 ''RTF to DOCX conversion failed'' \<and>
   get_prop ''stage'' (json_of (fst (generate_pdf (demo_env 0 1 0 []) (JStr ''r.rtf'') demo_world))) =
     JUndefined"
proof -
  have h1: "''r.rtf'' \<noteq> []" by simp
  have h2: "pathExists (rtfPath (demo_env 0 1 0 []) ''r.rtf'') demo_world" by code_simp
  note resp = generate_pdf_failure_responses [OF h1 h2]
  have "fst (generate_pdf (demo_env 0 1 0 []) (JStr ''r.rtf'') demo_world) =
     json_error 500 ''RTF to DOCX conversion failed''"
    unfolding resp [THEN conjunct1] by code_simp
  with h1 h2 resp show ?thesis by blast
qed

text \<open>
  The response to a failure of the first stage has neither a \<open>stage\<close> nor a
  \<open>reason\<close> field.
\<close>

theorem generate_pdf_failure_shape_counterexample:
  "fst (generate_pdf (demo_env 0 1 0 []) (JStr ''r.rtf'') demo_world) =
     \<lparr>status = 500, body = Json (JObj [(''error'', JStr ''RTF to DOCX conversion failed'')])\<rparr> \<and>
   get_prop ''stage'' (json_of (fst (generate_pdf (demo_env 0 1 0 []) (JStr ''r.rtf'') demo_world))) = JUndefined \<and>
   get_prop ''reason'' (json_of (fst (generate_pdf (demo_env 0 1 0 []) (JStr ''r.rtf'') demo_world))) = JUndefined"
  by code_simp

subsection \<open>Cleaning up twice\<close>





subsection \<open>The type of an uploaded file\<close>

text \<open>
  C8, as the code has it. An upload whose content type is not \<open>application/rtf\<close>
  and whose extension, in lower case, is not \<open>.rtf\<close> is answered with 500 and
  leaves the world as it was: nothing is stored and no process is started. In the client,
  a dropped file whose name, in lower case, does not end with \<open>.rtf\<close> is refused
  without any request.
\<close>

theorem upload_rejects_other_types:
  assumes "mimetype file \<noteq> ''application/rtf''"
      and "toLowerCase (extname (platform e) (originalname file)) \<noteq> ''.rtf''"
      and "\<not> suffix ''.rtf'' (toLowerCase (name bf))"
  shows "upload e uniqueSuffix (Some file) w = (json_error 500 ''Internal server error'', w) \<and>
         onDrop e uniqueSuffix (Some bf) w = (Told ''Please select an RTF file'', w)"
  using assms
  by (simp add: upload_def upload_single_def fileFilter_def error_middleware_def onDrop_def)

theorem upload_rejects_other_types_witness:
  "mimetype \<lparr>fieldname = ''rtfFile'', originalname = ''notes.txt'', mimetype = ''text/plain'', size_bytes = 10\<rparr>
     \<noteq> ''application/rtf'' \<and>
   toLowerCase (extname (platform (demo_env 0 0 0 [])) (originalname
     \<lparr>fieldname = ''rtfFile'', originalname = ''notes.txt'', mimetype = ''text/plain'', size_bytes = 10\<rparr>))
     \<noteq> ''.rtf'' \<and>
   \<not> suffix ''.rtf'' (toLowerCase (name \<lparr>name = ''notes.txt'', type = ''text/plain'', size_b = 10\<rparr>)) \<and>
   upload (demo_env 0 0 0 []) ''17-42''
     (Some \<lparr>fieldname = ''rtfFile'', originalname = ''notes.txt'', mimetype = ''text/plain'', size_bytes = 10\<rparr>)
     demo_world = (json_error 500 ''Internal server error'', demo_world) \<and>
   onDrop (demo_env 0 0 0 []) ''17-42'' (Some \<lparr>name = ''notes.txt'', type = ''text/plain'', size_b = 10\<rparr>)
     demo_world = (Told ''Please select an RTF file'', demo_world)"
proof -
  have h1: "mimetype \<lparr>fieldname = ''rtfFile'', originalname = ''notes.txt'', mimetype = ''text/plain'', size_bytes = 10\<rparr>
     \<noteq> ''application/rtf''" by simp
  have h2: "toLowerCase (extname (platform (demo_env 0 0 0 [])) (originalname
     \<lparr>fieldname = ''rtfFile'', originalname = ''notes.txt'', mimetype = ''text/plain'', size_bytes = 10\<rparr>))
     \<noteq> ''.rtf''" by code_simp
  have h3: "\<not> suffix ''.rtf'' (toLowerCase (name \<lparr>name = ''notes.txt'', type = ''text/plain'', size_b = 10\<rparr>))"
    by code_simp
  from upload_rejects_other_types [OF h1 h2 h3] h1 h2 h3 show ?thesis by blast
qed

text \<open>
  The file filter accepts a file by its content type alone. A file \<open>notes.txt\<close>
  sent with the content type \<open>application/rtf\<close> is stored, under a name that keeps
  its extension, and a check of that name starts the checker script on it.
\<close>

theorem upload_accepts_by_mimetype_counterexample:
  "toLowerCase (extname (platform (demo_env 0 0 0 [])) ''notes.txt'') = ''.txt'' \<and>
   upload (demo_env 0 0 0 []) ''17-42''
     (Some \<lparr>fieldname = ''rtfFile'', originalname = ''notes.txt'', mimetype = ''application/rtf'', size_bytes = 10\<rparr>)
     demo_world =
     (\<lparr>status = 200,
       body = Json (JObj [(''success'', JBool True),
                          (''message'', JStr ''File uploaded successfully''),
                          (''filename'', JStr ''rtfFile-17-42.txt''),
                          (''originalName'', JStr ''notes.txt''),
                          (''size'', JNum 10)])\<rparr>,
      \<lparr>files = [''/srv/app/server/uploads/rtfFile-17-42.txt'', ''/srv/app/server/index.js'',
                ''/srv/app/server/uploads/r.rtf''],
        spawned = []\<rparr>) \<and>
   spawned (snd (check_file (demo_env 0 0 0 []) (JStr ''rtfFile-17-42.txt'')
     (snd (upload (demo_env 0 0 0 []) ''17-42''
       (Some \<lparr>fieldname = ''rtfFile'', originalname = ''notes.txt'', mimetype = ''application/rtf'', size_bytes = 10\<rparr>)
       demo_world)))) =
     [[''python'', ''/srv/app/python/ef_checker.py'', ''/srv/app/server/uploads/rtfFile-17-42.txt'']]"
proof -
  let ?file = "\<lparr>fieldname = ''rtfFile'', originalname = ''notes.txt'',
                 mimetype = ''application/rtf'', size_bytes = 10\<rparr>"
  let ?stored = "\<lparr>files = [''/srv/app/server/uploads/rtfFile-17-42.txt'', ''/srv/app/server/index.js'',
                          ''/srv/app/server/uploads/r.rtf''],
                  spawned = []\<rparr>"
  have ext: "toLowerCase (extname (platform (demo_env 0 0 0 [])) ''notes.txt'') = ''.txt''"
    by code_simp
  have small: "\<not> (10::nat) > fileSize_limit"
    by (simp add: fileSize_limit_def)
  have filter: "fileFilter (platform (demo_env 0 0 0 [])) ?file = None"
    by (simp add: fileFilter_def)
  have name: "storage_filename (platform (demo_env 0 0 0 [])) ''17-42'' ?file = ''rtfFile-17-42.txt''"
    by code_simp
  have path: "path_join (platform (demo_env 0 0 0 [])) [uploadsDir (demo_env 0 0 0 []), ''rtfFile-17-42.txt''] =
      ''/srv/app/server/uploads/rtfFile-17-42.txt''"
    by code_simp
  have up: "upload (demo_env 0 0 0 []) ''17-42'' (Some ?file) demo_world =
     (\<lparr>status = 200,
       body = Json (JObj [(''success'', JBool True),
                          (''message'', JStr ''File uploaded successfully''),
                          (''filename'', JStr ''rtfFile-17-42.txt''),
                          (''originalName'', JStr ''notes.txt''),
                          (''size'', JNum 10)])\<rparr>, ?stored)"
    by (simp add: upload_def upload_single_def small filter name path demo_world_def Let_def)
  have chk: "spawned (snd (check_file (demo_env 0 0 0 []) (JStr ''rtfFile-17-42.txt'') ?stored)) =
     [[''python'', ''/srv/app/python/ef_checker.py'', ''/srv/app/server/uploads/rtfFile-17-42.txt'']]"
    by code_simp
  show ?thesis
    unfolding up using ext chk by simp
qed

subsection \<open>The size of an uploaded file\<close>

text \<open>
  C10, as the code has it. An upload in the field \<open>rtfFile\<close> that the file filter
  accepts and that is longer than 10 * 1024 * 1024 bytes is answered with 400 and
  \<open>File too large\<close>, and nothing is stored. In the client, a dropped file with an
  \<open>.rtf\<close> name that is longer than 10 * 1024 * 1024 bytes is refused without any
  request.
\<close>

theorem upload_too_large:
  assumes "fieldname file = ''rtfFile''" and "fileFilter (platform e) file = None"
      and "size_bytes file > 10 * 1024 * 1024"
      and "suffix ''.rtf'' (toLowerCase (name bf))" and "size_b bf > 10 * 1024 * 1024"
  shows "upload e uniqueSuffix (Some file) w = (json_error 400 ''File too large'', w) \<and>
         onDrop e uniqueSuffix (Some bf) w = (Told ''File size must be less than 10MB'', w)"
  using assms
  by (simp add: upload_def upload_single_def error_middleware_def onDrop_def fileSize_limit_def)

theorem upload_too_large_witness:
  "fieldname \<lparr>fieldname = ''rtfFile'', originalname = ''big.rtf'', mimetype = ''application/rtf'',
              size_bytes = 10485761\<rparr> = ''rtfFile'' \<and>
   fileFilter (platform (demo_env 0 0 0 []))
     \<lparr>fieldname = ''rtfFile'', originalname = ''big.rtf'', mimetype = ''application/rtf'',
               size_bytes = 10485761\<rparr> = None \<and>
   size_bytes \<lparr>fieldname = ''rtfFile'', originalname = ''big.rtf'', mimetype = ''application/rtf'',
               size_bytes = 10485761\<rparr> > 10 * 1024 * 1024 \<and>
   suffix ''.rtf'' (toLowerCase (name \<lparr>name = ''big.rtf'', type = ''application/rtf'', size_b = 10485761\<rparr>)) \<and>
   size_b \<lparr>name = ''big.rtf'', type = ''application/rtf'', size_b = 10485761\<rparr> > 10 * 1024 * 1024 \<and>
   upload (demo_env 0 0 0 []) ''17-42''
     (Some \<lparr>fieldname = ''rtfFile'', originalname = ''big.rtf'', mimetype = ''application/rtf'',
             size_bytes = 10485761\<rparr>) demo_world = (json_error 400 ''File too large'', demo_world) \<and>
   onDrop (demo_env 0 0 0 []) ''17-42''
     (Some \<lparr>name = ''big.rtf'', type = ''application/rtf'', size_b = 10485761\<rparr>) demo_world =
     (Told ''File size must be less than 10MB'', demo_world)"
proof -
  let ?file = "\<lparr>fieldname = ''rtfFile'', originalname = ''big.rtf'', mimetype = ''application/rtf'',
                 size_bytes = 10485761\<rparr>"
  let ?bf = "\<lparr>name = ''big.rtf'', type = ''application/rtf'', size_b = 10485761\<rparr>"
  have h1: "fieldname ?file = ''rtfFile''" by simp
  have h2: "fileFilter (platform (demo_env 0 0 0 [])) ?file = None" by (simp add: fileFilter_def)
  have h3: "size_bytes ?file > 10 * 1024 * 1024" by simp
  have l: "toLowerCase ''big.rtf'' = ''big.rtf''" by code_simp
  have h4: "suffix ''.rtf'' (toLowerCase (name ?bf))" by (simp add: l suffix_def)
  have h5: "size_b ?bf > 10 * 1024 * 1024" by simp
  from upload_too_large [OF h1 h2 h3 h4 h5] h1 h2 h3 h4 h5 show ?thesis by blast
qed

text \<open>
  The file filter is asked before the file is read. An upload that is too long and that
  the file filter refuses is answered with 500 and \<open>Internal server error\<close>.
\<close>

theorem upload_too_large_counterexample:
  "size_bytes \<lparr>fieldname = ''rtfFile'', originalname = ''big.txt'', mimetype = ''text/plain'',
               size_bytes = 10485761\<rparr> > 10 * 1024 * 1024 \<and>
   upload (demo_env 0 0 0 []) ''17-42''
     (Some \<lparr>fieldname = ''rtfFile'', originalname = ''big.txt'', mimetype = ''text/plain'',
             size_bytes = 10485761\<rparr>) demo_world =
     (\<lparr>status = 500, body = Json (JObj [(''error'', JStr ''Internal server error'')])\<rparr>, demo_world)"
proof -
  have ext: "toLowerCase (extname (platform (demo_env 0 0 0 [])) ''big.txt'') = ''.txt''" by code_simp
  show ?thesis
    by (simp add: upload_def upload_single_def fileFilter_def ext error_middleware_def json_error_def)
qed

subsection \<open>The diagnostic text of the checker\<close>

lemma check_file_response:
  assumes "f \<noteq> []" and "pathExists (path_join (platform e) [uploadsDir e, f]) w"
  shows "fst (check_file e (JStr f) w) =
     (if exit_code (run e [''python'', pythonScript e, path_join (platform e) [uploadsDir e, f]] (files w)) \<noteq> Some 0
      then \<lparr>status = 500,
             body = Json (JObj [(''error'', JStr ''EF check failed''),
                                (''details'', JStr (err (run e [''python'', pythonScript e, path_join (platform e) [uploadsDir e, f]] (files w))))])\<rparr>
      else case json_parse e (trim (out (run e [''python'', pythonScript e, path_join (platform e) [uploadsDir e, f]] (files w)))) of
             Some result \<Rightarrow> \<lparr>status = 200, body = Json result\<rparr>
           | None \<Rightarrow>
               \<lparr>status = 500,
                 body = Json (JObj [(''error'', JStr ''Failed to parse EF check results''),
                                    (''details'', JStr (out (run e [''python'', pythonScript e, path_join (platform e) [uploadsDir e, f]] (files w))))])\<rparr>)"
  using assms by (simp add: check_file_def spawn_def Let_def split: option.splits)

lemma demo_exists: "pathExists (path_join (platform (demo_env c1 c2 c3 text)) [uploadsDir (demo_env c1 c2 c3 text), ''r.rtf'']) demo_world"
proof -
  have "path_join (platform (demo_env c1 c2 c3 text)) [uploadsDir (demo_env c1 c2 c3 text), ''r.rtf''] =
        path_join Posix [path_join Posix [''/srv/app/server'', ''uploads''], ''r.rtf'']"
    by (simp add: uploadsDir_def demo_env_def)
  also have "\<dots> = ''/srv/app/server/uploads/r.rtf''"
    by code_simp
  finally show ?thesis
    by (simp add: pathExists_def demo_world_def)
qed

lemma demo_check_failed:
  "fst (check_file (demo_env 1 0 0 text) (JStr ''r.rtf'') demo_world) =
     \<lparr>status = 500,
      body = Json (JObj [(''error'', JStr ''EF check failed''), (''details'', JStr text)])\<rparr>"
  by (simp add: check_file_response [OF _ demo_exists]) (simp add: demo_env_def demo_run_def)

text \<open>
  C9, as the code has it. When the checker ends with a status other than 0, the
  \<open>details\<close> field of the response is the whole text of its standard error; when it
  ends with 0 and its output is not JSON, the \<open>details\<close> field is the whole text of
  its standard output. Nothing is cut.
\<close>

theorem check_file_details_verbatim:
  assumes "f \<noteq> []" and "pathExists (path_join (platform e) [uploadsDir e, f]) w"
      and "r = run e [''python'', pythonScript e, path_join (platform e) [uploadsDir e, f]] (files w)"
      and "exit_code r \<noteq> Some 0 \<or> json_parse e (trim (out r)) = None"
  shows "fst (check_file e (JStr f) w) =
     (if exit_code r \<noteq> Some 0
      then \<lparr>status = 500,
             body = Json (JObj [(''error'', JStr ''EF check failed''), (''details'', JStr (err r))])\<rparr>
      else \<lparr>status = 500,
             body = Json (JObj [(''error'', JStr ''Failed to parse EF check results''),
                                (''details'', JStr (out r))])\<rparr>)"
  using assms(3,4) by (auto simp: check_file_response [OF assms(1,2)])

theorem check_file_details_verbatim_witness:
  "''r.rtf'' \<noteq> [] \<and>
   pathExists (path_join (platform (demo_env 1 0 0 ''Traceback: no such file'')) [uploadsDir (demo_env 1 0 0 ''Traceback: no such file''), ''r.rtf'']) demo_world \<and>
   exit_code (run (demo_env 1 0 0 ''Traceback: no such file'')
       [''python'', pythonScript (demo_env 1 0 0 ''Traceback: no such file''),
        path_join (platform (demo_env 1 0 0 ''Traceback: no such file'')) [uploadsDir (demo_env 1 0 0 ''Traceback: no such file''), ''r.rtf'']] (files demo_world)) \<noteq> Some 0 \<and>
   fst (check_file (demo_env 1 0 0 ''Traceback: no such file'') (JStr ''r.rtf'') demo_world) =
     \<lparr>status = 500,
      body = Json (JObj [(''error'', JStr ''EF check failed''),
                         (''details'', JStr ''Traceback: no such file'')])\<rparr>"
proof -
  let ?e = "demo_env 1 0 0 ''Traceback: no such file''"
  let ?r = "run ?e [''python'', pythonScript ?e, path_join (platform ?e) [uploadsDir ?e, ''r.rtf'']] (files demo_world)"
  have h1: "''r.rtf'' \<noteq> []" by simp
  have h2: "pathExists (path_join (platform ?e) [uploadsDir ?e, ''r.rtf'']) demo_world" by code_simp
  have h3: "exit_code ?r \<noteq> Some 0" by code_simp
  then have h4: "exit_code ?r \<noteq> Some 0 \<or> json_parse ?e (trim (out ?r)) = None" by blast
  have e: "err ?r = ''Traceback: no such file''" by code_simp
  have "fst (check_file ?e (JStr ''r.rtf'') demo_world) =
     \<lparr>status = 500,
      body = Json (JObj [(''error'', JStr ''EF check failed''),
                         (''details'', JStr ''Traceback: no such file'')])\<rparr>"
    using check_file_details_verbatim [OF h1 h2 refl h4] h3 e by simp
  with h1 h2 h3 show ?thesis by blast
qed

text \<open>No length bounds the \<open>details\<close> field of every response.\<close>

theorem check_file_details_unbounded_counterexample:
  "\<not> (\<exists>N. \<forall>text. \<exists>d.
        get_prop ''details'' (json_of (fst (check_file (demo_env 1 0 0 text) (JStr ''r.rtf'') demo_world))) = JStr d \<and>
        length d \<le> N)"
proof
  assume "\<exists>N. \<forall>text. \<exists>d.
        get_prop ''details'' (json_of (fst (check_file (demo_env 1 0 0 text) (JStr ''r.rtf'') demo_world))) = JStr d \<and>
        length d \<le> N"
  then obtain N where N: "\<And>text. \<exists>d.
        get_prop ''details'' (json_of (fst (check_file (demo_env 1 0 0 text) (JStr ''r.rtf'') demo_world))) = JStr d \<and>
        length d \<le> N"
    by blast
  from N [of "replicate (Suc N) CHR ''x''"] show False
    by (simp add: demo_check_failed json_of_def)
qed

subsection \<open>Paths and the uploads directory\<close>

lemma is_sep_sep_of: "is_sep pl (sep_of pl)"
  by (cases pl) auto

lemma split_sep_not_Nil: "split_sep pl s \<noteq> []"
  by (induction s) (auto split: list.splits)

lemma split_sep_append:
  "is_sep pl c \<Longrightarrow> split_sep pl (a @ c # b) = split_sep pl a @ split_sep pl b"
proof (induction a)
  case Nil
  then show ?case by simp
next
  case (Cons x a)
  obtain s ss where "split_sep pl a = s # ss"
    using split_sep_not_Nil [of pl a] by (cases "split_sep pl a") auto
  with Cons show ?case by simp
qed

lemma split_sep_no_sep: "\<forall>c\<in>set s. \<not> is_sep pl c \<Longrightarrow> split_sep pl s = [s]"
  by (induction s) auto

lemma split_sep_segments: "x \<in> set (split_sep pl s) \<Longrightarrow> \<forall>c\<in>set x. \<not> is_sep pl c"
proof (induction s arbitrary: x)
  case Nil
  then show ?case by simp
next
  case (Cons c s)
  obtain t ts where ts: "split_sep pl s = t # ts"
    using split_sep_not_Nil [of pl s] by (cases "split_sep pl s") auto
  show ?case
  proof (cases "is_sep pl c")
    case True
    with Cons show ?thesis by auto
  next
    case False
    with Cons.prems ts have "x = c # t \<or> x \<in> set ts" by auto
    then show ?thesis
      using Cons.IH [of t] Cons.IH [of x] ts False by auto
  qed
qed

lemma split_join:
  "segs \<noteq> [] \<Longrightarrow> \<forall>x\<in>set segs. \<forall>c\<in>set x. \<not> is_sep pl c \<Longrightarrow>
     split_sep pl (join_sep pl segs) = segs"
proof (induction pl segs rule: join_sep.induct)
  case (1 pl)
  then show ?case by simp
next
  case (2 pl s)
  then show ?case by (simp add: split_sep_no_sep)
next
  case (3 pl s t ss)
  then have "split_sep pl (join_sep pl (t # ss)) = t # ss" by simp
  moreover have "split_sep pl s = [s]" using 3 by (simp add: split_sep_no_sep)
  ultimately show ?case by (simp add: split_sep_append is_sep_sep_of)
qed

lemma join_sep_append:
  "xs \<noteq> [] \<Longrightarrow> ys \<noteq> [] \<Longrightarrow>
     join_sep pl (xs @ ys) = join_sep pl xs @ sep_of pl # join_sep pl ys"
proof (induction pl xs rule: join_sep.induct)
  case (1 pl)
  then show ?case by simp
next
  case (2 pl s)
  then show ?case by (cases ys) auto
next
  case (3 pl s t ss)
  then show ?case by simp
qed

lemma join_sep_nonempty:
  "segs \<noteq> [] \<Longrightarrow> \<forall>x\<in>set segs. x \<noteq> [] \<Longrightarrow> join_sep pl segs \<noteq> []"
  by (induction pl segs rule: join_sep.induct) auto

lemma normalizeString_append:
  "normalizeString a res (xs @ ys) = normalizeString a (normalizeString a res xs) ys"
  by (induction xs arbitrary: res) auto

lemma normalizeString_nodotdot:
  "''..'' \<notin> set ss \<Longrightarrow>
     normalizeString a res ss = res @ filter (\<lambda>s. s \<noteq> [] \<and> s \<noteq> ''.'') ss"
  by (induction ss arbitrary: res) auto

lemma normalizeString_clean:
  "\<forall>x\<in>set res. clean_seg pl x \<Longrightarrow> \<forall>x\<in>set ss. \<forall>c\<in>set x. \<not> is_sep pl c \<Longrightarrow>
     \<forall>x\<in>set (normalizeString False res ss). clean_seg pl x"
proof (induction ss arbitrary: res)
  case Nil
  then show ?case by simp
next
  case (Cons s ss)
  have bl: "\<forall>x\<in>set (butlast res). clean_seg pl x"
    using Cons.prems(1) by (meson in_set_butlastD)
  have app: "s \<noteq> [] \<Longrightarrow> s \<noteq> ''.'' \<Longrightarrow> s \<noteq> ''..'' \<Longrightarrow> \<forall>x\<in>set (res @ [s]). clean_seg pl x"
    using Cons.prems by (auto simp: clean_seg_def)
  have ss: "\<forall>x\<in>set ss. \<forall>c\<in>set x. \<not> is_sep pl c" using Cons.prems(2) by simp
  show ?case
    using Cons.IH [OF bl ss] Cons.IH [OF Cons.prems(1) ss] Cons.IH [OF app ss]
    by simp
qed

lemma filter_clean:
  "\<forall>x\<in>set segs. clean_seg pl x \<Longrightarrow> filter (\<lambda>s. s \<noteq> [] \<and> s \<noteq> ''.'') segs = segs"
  by (induction segs) (auto simp: clean_seg_def)

lemma norm_tail_leading_sep:
  assumes "is_sep pl c" "y \<noteq> []"
  shows "norm_tail pl (c # y) = norm_tail pl y"
  using assms by (simp add: norm_tail_def)

lemma posix_join_rooted:
  assumes "b \<noteq> []"
  shows "path_join Posix [CHR ''/'' # x, b] = CHR ''/'' # norm_tail Posix (x @ CHR ''/'' # b)"
proof -
  let ?p = "CHR ''/'' # x @ CHR ''/'' # b"
  have split: "split_sep Posix ?p = [] # split_sep Posix (x @ CHR ''/'' # b)"
    by simp
  have lastp: "last ?p = last (x @ CHR ''/'' # b)" by simp
  have "path_join Posix [CHR ''/'' # x, b] = posix_normalize ?p"
    using assms by (simp add: posix_join_def)
  also have "\<dots> = CHR ''/'' # norm_tail Posix (x @ CHR ''/'' # b)"
    unfolding posix_normalize_def norm_tail_def Let_def split lastp
    by simp
  finally show ?thesis .
qed

lemma device_root_not_sep: "isWindowsDeviceRoot c \<Longrightarrow> \<not> is_sep Win32 c"
  by (auto simp: isWindowsDeviceRoot_def)

lemma win32_normalize_rooted:
  assumes "win32_root path = Root (Some dev) True k" "k \<le> length path" "2 \<le> length path"
  shows "win32_normalize path = dev @ CHR 0x5C # norm_tail Win32 (drop k path)"
proof -
  obtain c0 c1 rest where p: "path = c0 # c1 # rest"
    using assms(3) by (cases path; cases "tl path") auto
  have r: "win32_root (c0 # c1 # rest) = Root (Some dev) True k"
    using assms(1) p by simp
  have l: "drop k (c0 # c1 # rest) \<noteq> [] \<Longrightarrow> last (drop k (c0 # c1 # rest)) = last (c0 # c1 # rest)"
    by (rule last_drop) (simp only: drop_eq_Nil not_le)
  show ?thesis
  proof (cases "k < length path")
    case True
    then have "drop k (c0 # c1 # rest) \<noteq> []" using p by simp
    with l True show ?thesis
      unfolding p win32_normalize_def norm_tail_def Let_def
      by (simp add: r del: drop_Suc_Cons last.simps)
  next
    case False
    with assms(2) have "drop k (c0 # c1 # rest) = []" using p by simp
    with False show ?thesis
      unfolding p win32_normalize_def norm_tail_def Let_def
      by (simp add: r del: drop_Suc_Cons)
  qed
qed

lemma win32_join_drive:
  assumes "isWindowsDeviceRoot c0" "is_sep Win32 c2" "b \<noteq> []"
  shows "path_join Win32 [c0 # CHR '':'' # c2 # x, b] =
           c0 # CHR '':'' # CHR 0x5C # norm_tail Win32 (x @ CHR 0x5C # b)"
proof -
  let ?joined = "c0 # CHR '':'' # c2 # x @ CHR 0x5C # b"
  have ns: "\<not> is_sep Win32 c0" using assms(1) by (rule device_root_not_sep)
  have root: "win32_root ?joined = Root (Some [c0, CHR '':'']) True 3"
    using assms(1,2) ns by (simp add: win32_root_def)
  have "path_join Win32 [c0 # CHR '':'' # c2 # x, b] = win32_normalize ?joined"
    using assms(3) ns by (simp add: win32_join_def Let_def)
  also have "\<dots> = [c0, CHR '':''] @ CHR 0x5C # norm_tail Win32 (drop 3 ?joined)"
    by (rule win32_normalize_rooted [OF root]) simp_all
  finally show ?thesis by simp
qed

lemma takeWhile_block:
  assumes "\<forall>c\<in>set xs. P c" "ys = [] \<or> \<not> P (hd ys)"
  shows "takeWhile P (xs @ ys) = xs"
  using assms by (cases ys) (auto simp: takeWhile_append2)

lemma win32_root_unc:
  assumes "is_sep Win32 s1" "is_sep Win32 s2"
      and "server \<noteq> []" "\<forall>c\<in>set server. \<not> is_sep Win32 c"
      and "seps \<noteq> []" "\<forall>c\<in>set seps. is_sep Win32 c"
      and "share \<noteq> []" "\<forall>c\<in>set share. \<not> is_sep Win32 c"
      and "is_sep Win32 c"
  shows "win32_root (s1 # s2 # server @ seps @ share @ c # y) =
           Root (Some (CHR 0x5C # CHR 0x5C # server @ CHR 0x5C # share)) True
             (2 + length server + length seps + length share)"
proof -
  let ?path = "s1 # s2 # server @ seps @ share @ c # y"
  have hd_seps: "is_sep Win32 (hd seps)" using assms(5,6) by (cases seps) auto
  have hd_share: "\<not> is_sep Win32 (hd share)" using assms(7,8) by (cases share) auto
  have t1: "takeWhile (\<lambda>c. \<not> is_sep Win32 c) (server @ seps @ share @ c # y) = server"
    by (rule takeWhile_block) (use assms(4,5) hd_seps in auto)
  have d1: "drop (2 + length server) ?path = seps @ share @ c # y" by simp
  have t2: "takeWhile (is_sep Win32) (seps @ share @ c # y) = seps"
    by (rule takeWhile_block) (use assms(6,7) hd_share in auto)
  have d2: "drop (2 + length server + length seps) ?path = share @ c # y" by simp
  have t3: "takeWhile (\<lambda>c. \<not> is_sep Win32 c) (share @ c # y) = share"
    by (rule takeWhile_block) (use assms(8,9) in auto)
  show ?thesis
    unfolding win32_root_def
    using assms(1,2,3)
    by (simp add: t1 d1 t2 d2 t3 Let_def del: is_sep.simps)
qed

lemma win32_join_unc:
  assumes "is_sep Win32 s1" "is_sep Win32 s2"
      and "server \<noteq> []" "\<forall>c\<in>set server. \<not> is_sep Win32 c"
      and "seps \<noteq> []" "\<forall>c\<in>set seps. is_sep Win32 c"
      and "share \<noteq> []" "\<forall>c\<in>set share. \<not> is_sep Win32 c"
      and "x = [] \<or> is_sep Win32 (hd x)" "b \<noteq> []"
  shows "path_join Win32 [s1 # s2 # server @ seps @ share @ x, b] =
           (CHR 0x5C # CHR 0x5C # server @ CHR 0x5C # share @ [CHR 0x5C])
           @ norm_tail Win32 (x @ CHR 0x5C # b)"
proof -
  obtain c y where cy: "x @ CHR 0x5C # b = c # y" "is_sep Win32 c"
    using assms(9) by (cases x) auto
  let ?d = "s1 # s2 # server @ seps @ share @ x"
  let ?joined = "s1 # s2 # server @ seps @ share @ c # y"
  have j: "?d @ CHR 0x5C # b = ?joined" using cy(1) by simp
  obtain v vs where sv: "server = v # vs" "\<not> is_sep Win32 v"
    using assms(3,4) by (cases server) auto
  have unc: "(case ?d of a # b # c # _ \<Rightarrow> is_sep Win32 a \<and> is_sep Win32 b \<and> \<not> is_sep Win32 c
                      | _ \<Rightarrow> False)"
    using assms(1,2) sv by simp
  have root: "win32_root ?joined =
      Root (Some (CHR 0x5C # CHR 0x5C # server @ CHR 0x5C # share)) True
        (2 + length server + length seps + length share)"
    by (rule win32_root_unc [OF assms(1-8) cy(2)])
  have "path_join Win32 [?d, b] = win32_normalize (?d @ CHR 0x5C # b)"
    using assms(10) unc by (simp add: win32_join_def Let_def del: is_sep.simps)
  also have "\<dots> = win32_normalize ?joined" by (simp only: j)
  also have "\<dots> = (CHR 0x5C # CHR 0x5C # server @ CHR 0x5C # share) @ CHR 0x5C #
      norm_tail Win32 (drop (2 + length server + length seps + length share) ?joined)"
    by (rule win32_normalize_rooted [OF root]) simp_all
  also have "drop (2 + length server + length seps + length share) ?joined = c # y"
    by simp
  finally show ?thesis using cy(1) by simp
qed

lemma absolute_dir_win32_cases:
  assumes "absolute_dir Win32 d"
  shows "(\<exists>c0 c2 x. d = c0 # CHR '':'' # c2 # x \<and> isWindowsDeviceRoot c0 \<and> is_sep Win32 c2) \<or>
         (\<exists>s1 s2 server seps share x.
            d = s1 # s2 # server @ seps @ share @ x \<and> is_sep Win32 s1 \<and> is_sep Win32 s2 \<and>
            server \<noteq> [] \<and> (\<forall>c\<in>set server. \<not> is_sep Win32 c) \<and>
            seps \<noteq> [] \<and> (\<forall>c\<in>set seps. is_sep Win32 c) \<and>
            share \<noteq> [] \<and> (\<forall>c\<in>set share. \<not> is_sep Win32 c) \<and>
            (x = [] \<or> is_sep Win32 (hd x)))"
proof -
  obtain c0 c1 rest where d: "d = c0 # c1 # rest"
    using assms by (cases d; cases "tl d") (auto simp: win32_root_def)
  show ?thesis
  proof (cases "is_sep Win32 c0")
    case False
    with assms d have "isWindowsDeviceRoot c0 \<and> c1 = CHR '':''"
      by (auto simp: win32_root_def split: if_splits)
    moreover from this assms d False obtain c2 x where "rest = c2 # x" "is_sep Win32 c2"
      by (cases rest) (auto simp: win32_root_def split: if_splits)
    ultimately show ?thesis using d by blast
  next
    case True
    define server where "server = takeWhile (\<lambda>c. \<not> is_sep Win32 c) rest"
    define r1 where "r1 = dropWhile (\<lambda>c. \<not> is_sep Win32 c) rest"
    define seps where "seps = takeWhile (is_sep Win32) r1"
    define r2 where "r2 = dropWhile (is_sep Win32) r1"
    define share where "share = takeWhile (\<lambda>c. \<not> is_sep Win32 c) r2"
    define x where "x = dropWhile (\<lambda>c. \<not> is_sep Win32 c) r2"
    have rest: "rest = server @ seps @ share @ x"
      by (simp add: server_def r1_def seps_def r2_def share_def x_def)
    have dr1: "drop (2 + length server) d = r1"
      unfolding d server_def r1_def by (simp add: dropWhile_eq_drop)
    have dr2: "drop (2 + length server + length seps) d = r2"
    proof -
      have "drop (2 + length server + length seps) d = drop (length seps) (drop (2 + length server) d)"
        by (simp add: add.commute)
      then show ?thesis
        unfolding dr1 seps_def r2_def by (simp add: dropWhile_eq_drop)
    qed
    have c1: "is_sep Win32 c1"
      using assms True d by (auto simp: win32_root_def split: if_splits)
    have cond: "server \<noteq> [] \<and> 2 + length server < length d \<and>
                2 + length server + length seps < length d"
    proof (rule ccontr)
      assume "\<not> ?thesis"
      moreover have "drop (length server) rest = r1"
        unfolding server_def r1_def by (simp add: dropWhile_eq_drop)
      ultimately have "win32_root d = Root None True 0"
        unfolding win32_root_def d
        using True c1
        by (simp add: Let_def server_def [symmetric] seps_def [symmetric]
              del: is_sep.simps)
      with assms show False by simp
    qed
    then have "r1 \<noteq> []" using dr1 by auto
    then have "is_sep Win32 (hd r1)"
      unfolding r1_def using hd_dropWhile [of "\<lambda>c. \<not> is_sep Win32 c" rest] by blast
    with \<open>r1 \<noteq> []\<close> have seps_ne: "seps \<noteq> []"
      unfolding seps_def by (cases r1) auto
    from cond have "r2 \<noteq> []" using dr2 by auto
    then have "\<not> is_sep Win32 (hd r2)"
      unfolding r2_def using hd_dropWhile [of "is_sep Win32" r1] by blast
    with \<open>r2 \<noteq> []\<close> have share_ne: "share \<noteq> []"
      unfolding share_def by (cases r2) auto
    have x: "x = [] \<or> is_sep Win32 (hd x)"
      unfolding x_def using hd_dropWhile [of "\<lambda>c. \<not> is_sep Win32 c" r2] by blast
    have "\<forall>c\<in>set server. \<not> is_sep Win32 c"
      unfolding server_def by (auto dest: set_takeWhileD)
    moreover have "\<forall>c\<in>set seps. is_sep Win32 c"
      unfolding seps_def by (auto dest: set_takeWhileD)
    moreover have "\<forall>c\<in>set share. \<not> is_sep Win32 c"
      unfolding share_def by (auto dest: set_takeWhileD)
    ultimately show ?thesis
      using d rest True c1 cond seps_ne share_ne x by blast
  qed
qed

lemma join_absolute:
  assumes "absolute_dir pl d" "b \<noteq> []"
  shows "\<exists>R x. path_join pl [d, b] = R @ norm_tail pl (x @ sep_of pl # b) \<and>
           (\<forall>y b'. b' \<noteq> [] \<longrightarrow>
              path_join pl [R @ y, b'] = R @ norm_tail pl (y @ sep_of pl # b'))"
proof (cases pl)
  case Posix
  with assms(1) obtain x where d: "d = CHR ''/'' # x"
    by (auto simp: prefix_def)
  have "path_join pl [d, b] = ''/'' @ norm_tail pl (x @ sep_of pl # b)"
    using posix_join_rooted [OF assms(2), of x] d Posix by simp
  moreover have "\<forall>y b'. b' \<noteq> [] \<longrightarrow>
      path_join pl [''/'' @ y, b'] = ''/'' @ norm_tail pl (y @ sep_of pl # b')"
    using posix_join_rooted Posix by simp
  ultimately show ?thesis by blast
next
  case Win32
  from absolute_dir_win32_cases [OF assms(1) [unfolded Win32]]
  consider
    (drive) c0 c2 x where "d = c0 # CHR '':'' # c2 # x" "isWindowsDeviceRoot c0" "is_sep Win32 c2"
  | (unc) s1 s2 server seps share x where
      "d = s1 # s2 # server @ seps @ share @ x" "is_sep Win32 s1" "is_sep Win32 s2"
      "server \<noteq> []" "\<forall>c\<in>set server. \<not> is_sep Win32 c"
      "seps \<noteq> []" "\<forall>c\<in>set seps. is_sep Win32 c"
      "share \<noteq> []" "\<forall>c\<in>set share. \<not> is_sep Win32 c"
      "x = [] \<or> is_sep Win32 (hd x)"
    by blast
  then show ?thesis
  proof cases
    case drive
    note d = drive(1) and c0 = drive(2) and c2 = drive(3)
    let ?R = "[c0, CHR '':'', CHR 0x5C]"
    have "path_join pl [d, b] = ?R @ norm_tail pl (x @ sep_of pl # b)"
      using win32_join_drive [OF c0 c2 assms(2), of x] d Win32 by simp
    moreover have "\<forall>y b'. b' \<noteq> [] \<longrightarrow>
        path_join pl [?R @ y, b'] = ?R @ norm_tail pl (y @ sep_of pl # b')"
      using win32_join_drive [OF c0, of "CHR 0x5C"] Win32 by simp
    ultimately show ?thesis by blast
  next
    case unc
    note d = unc(1) and s = unc(2,3) and server = unc(4,5) and seps = unc(6,7)
      and share = unc(8,9) and x = unc(10)
    let ?R = "CHR 0x5C # CHR 0x5C # server @ CHR 0x5C # share @ [CHR 0x5C]"
    have first: "path_join pl [d, b] = ?R @ norm_tail pl (x @ sep_of pl # b)"
      using win32_join_unc [OF s server seps share x assms(2)] d Win32 by simp
    have second: "path_join pl [?R @ y, b'] = ?R @ norm_tail pl (y @ sep_of pl # b')"
      if "b' \<noteq> []" for y b'
    proof -
      have bs: "is_sep Win32 (CHR 0x5C)" by simp
      have "path_join Win32 [CHR 0x5C # CHR 0x5C # server @ [CHR 0x5C] @ share @ (CHR 0x5C # y), b'] =
          ?R @ norm_tail Win32 ((CHR 0x5C # y) @ CHR 0x5C # b')"
        using win32_join_unc [of "CHR 0x5C" "CHR 0x5C" server "[CHR 0x5C]" share "CHR 0x5C # y" b']
          server share that
        by simp
      moreover have "norm_tail Win32 ((CHR 0x5C # y) @ CHR 0x5C # b') =
          norm_tail Win32 (y @ CHR 0x5C # b')"
        using norm_tail_leading_sep [OF bs, of "y @ CHR 0x5C # b'"] by simp
      ultimately show "path_join pl [?R @ y, b'] = ?R @ norm_tail pl (y @ sep_of pl # b')"
        using Win32 by simp
    qed
    from first second show ?thesis by blast
  qed
qed

lemma uploads_no_sep: "\<forall>c\<in>set ''uploads''. \<not> is_sep pl c"
  by (cases pl) auto

lemma uploadsDir_shape:
  assumes "absolute_dir (platform e) (dirname e)"
  shows "\<exists>R segs. segs \<noteq> [] \<and> (\<forall>x\<in>set segs. clean_seg (platform e) x) \<and>
           uploadsDir e = R @ join_sep (platform e) segs \<and>
           (\<forall>y b. b \<noteq> [] \<longrightarrow>
              path_join (platform e) [R @ y, b] =
                R @ norm_tail (platform e) (y @ sep_of (platform e) # b))"
proof -
  let ?pl = "platform e"
  obtain R x where first: "uploadsDir e = R @ norm_tail ?pl (x @ sep_of ?pl # ''uploads'')"
    and second: "\<forall>y b. b \<noteq> [] \<longrightarrow>
              path_join ?pl [R @ y, b] = R @ norm_tail ?pl (y @ sep_of ?pl # b)"
    using join_absolute [OF assms, of "''uploads''"] unfolding uploadsDir_def by auto
  define N where "N = normalizeString False [] (split_sep ?pl x)"
  have Nclean: "\<forall>s\<in>set N. clean_seg ?pl s"
    unfolding N_def by (rule normalizeString_clean) (auto dest: split_sep_segments)
  have up: "clean_seg ?pl ''uploads''"
    using uploads_no_sep [of ?pl] by (simp add: clean_seg_def)
  have split: "split_sep ?pl (x @ sep_of ?pl # ''uploads'') = split_sep ?pl x @ [''uploads'']"
    using split_sep_append [OF is_sep_sep_of, of ?pl x "''uploads''"]
      split_sep_no_sep [OF uploads_no_sep, of ?pl] by simp
  have norm: "normalizeString False [] (split_sep ?pl (x @ sep_of ?pl # ''uploads'')) = N @ [''uploads'']"
    unfolding split normalizeString_append N_def by simp
  have clean: "\<forall>s\<in>set (N @ [''uploads'']). clean_seg ?pl s"
    using Nclean up by auto
  have nosep_s: "\<not> is_sep ?pl (CHR ''s'')" by (cases ?pl) auto
  have "norm_tail ?pl (x @ sep_of ?pl # ''uploads'') = join_sep ?pl (N @ [''uploads''])"
    using nosep_s by (simp add: norm_tail_def norm Let_def)
  with first clean second show ?thesis
    by (intro exI [of _ R] exI [of _ "N @ [''uploads'']"]) simp
qed

lemma proper_name_nonempty: "proper_name pl f \<Longrightarrow> f \<noteq> []"
  by (auto simp: proper_name_def)

lemma file_path_shape:
  assumes "absolute_dir (platform e) (dirname e)" "proper_name (platform e) f"
  shows "\<exists>t. t \<noteq> [] \<and>
           path_join (platform e) [uploadsDir e, f] = uploadsDir e @ sep_of (platform e) # t"
proof -
  let ?pl = "platform e"
  obtain R segs where segs: "segs \<noteq> []" "\<forall>x\<in>set segs. clean_seg ?pl x"
    and U: "uploadsDir e = R @ join_sep ?pl segs"
    and second: "\<forall>y b. b \<noteq> [] \<longrightarrow>
              path_join ?pl [R @ y, b] = R @ norm_tail ?pl (y @ sep_of ?pl # b)"
    using uploadsDir_shape [OF assms(1)] by blast
  have f: "f \<noteq> []" using assms(2) by (rule proper_name_nonempty)
  define rest where "rest = filter (\<lambda>s. s \<noteq> [] \<and> s \<noteq> ''.'') (split_sep ?pl f)"
  have rest: "rest \<noteq> []" and nodd_f: "''..'' \<notin> set (split_sep ?pl f)"
    using assms(2) by (auto simp: proper_name_def rest_def)
  have rest_ne: "\<forall>x\<in>set rest. x \<noteq> []" by (auto simp: rest_def)
  have nosep: "\<forall>x\<in>set segs. \<forall>c\<in>set x. \<not> is_sep ?pl c"
    using segs(2) by (simp add: clean_seg_def)
  have nodd: "''..'' \<notin> set segs"
    using segs(2) by (auto simp: clean_seg_def)
  let ?p = "join_sep ?pl segs @ sep_of ?pl # f"
  have split: "split_sep ?pl ?p = segs @ split_sep ?pl f"
    by (simp add: split_sep_append [OF is_sep_sep_of] split_join [OF segs(1) nosep])
  have norm: "normalizeString False [] (split_sep ?pl ?p) = segs @ rest"
    unfolding split using nodd nodd_f
    by (subst normalizeString_nodotdot) (simp_all add: filter_clean [OF segs(2)] rest_def)
  have j: "join_sep ?pl (segs @ rest) = join_sep ?pl segs @ sep_of ?pl # join_sep ?pl rest"
    by (rule join_sep_append [OF segs(1) rest])
  have jr: "join_sep ?pl rest \<noteq> []"
    by (rule join_sep_nonempty [OF rest rest_ne])
  define t where "t = join_sep ?pl rest @ (if is_sep ?pl (last f) then [sep_of ?pl] else [])"
  have lastp: "last ?p = last f" using f by simp
  have "norm_tail ?pl ?p = join_sep ?pl segs @ sep_of ?pl # t"
    unfolding norm_tail_def Let_def norm j lastp t_def by simp
  moreover have "path_join ?pl [uploadsDir e, f] = R @ norm_tail ?pl ?p"
    using second f U by simp
  moreover have "t \<noteq> []" using jr by (simp add: t_def)
  ultimately show ?thesis using U by auto
qed

lemma below_shape: "t \<noteq> [] \<Longrightarrow> below pl u (u @ sep_of pl # t)"
  by (simp add: below_def)

lemma replace_first_append:
  assumes "\<not> sublist pat u" "t = [] \<or> hd t \<notin> set pat"
  shows "replace_first pat rep (u @ t) = u @ replace_first pat rep t"
  using assms(1)
proof (induction u)
  case Nil
  then show ?case by simp
next
  case (Cons c u)
  from Cons.prems have np: "\<not> prefix pat (c # u)" and ns: "\<not> sublist pat u"
    by (auto simp: sublist_Cons_right)
  have "\<not> prefix pat ((c # u) @ t)"
  proof
    assume "prefix pat ((c # u) @ t)"
    then have "prefix pat (c # u) \<or> (\<exists>us. pat = (c # u) @ us \<and> prefix us t)"
      by (simp only: prefix_append)
    then obtain us where us: "pat = (c # u) @ us" "prefix us t"
      using np by blast
    with np have "us \<noteq> []" by auto
    with us(2) have "t \<noteq> []" "hd t = hd us" by (auto simp: prefix_def)
    with us(1) \<open>us \<noteq> []\<close> have "hd t \<in> set pat" by (cases us) auto
    with assms(2) \<open>t \<noteq> []\<close> show False by simp
  qed
  with Cons.IH [OF ns] show ?case by simp
qed

lemma replace_first_nonempty:
  "t \<noteq> [] \<Longrightarrow> rep \<noteq> [] \<Longrightarrow> replace_first pat rep t \<noteq> []"
  by (cases t) auto

lemma replaced_below:
  assumes "p = u @ c # t" "t \<noteq> []" "\<not> sublist pat u" "pat \<noteq> []" "c \<notin> set pat" "rep \<noteq> []"
  shows "\<exists>t'. t' \<noteq> [] \<and> replace_first pat rep p = u @ c # t'"
proof -
  have "replace_first pat rep p = u @ replace_first pat rep (c # t)"
    unfolding assms(1) by (rule replace_first_append [OF assms(3)]) (use assms(5) in simp)
  moreover have "\<not> prefix pat (c # t)"
    using assms(4,5) by (cases pat) auto
  ultimately have "replace_first pat rep p = u @ c # replace_first pat rep t"
    by simp
  with replace_first_nonempty [OF assms(2,6)] show ?thesis by blast
qed

lemma sep_not_in_ext: "sep_of pl \<notin> set ''.rtf''" "sep_of pl \<notin> set ''.docx''"
  by (cases pl; simp)+

lemma cleanup_files:
  assumes "f \<noteq> []"
  shows "p \<in> set (files (snd (cleanup e (JStr f) w))) \<longleftrightarrow>
           p \<in> set (files w) \<and>
           \<not> (pathExists (path_join (platform e) [uploadsDir e, f]) w \<and>
              (p = path_join (platform e) [uploadsDir e, f] \<or>
               prefix (path_join (platform e) [uploadsDir e, f] @ [sep_of (platform e)]) p))"
  using assms by (auto simp: cleanup_def Let_def remove_def)

lemma below_not_self: "below pl u p \<Longrightarrow> q = p \<or> prefix (p @ [sep_of pl]) q \<Longrightarrow> below pl u q"
proof -
  assume b: "below pl u p" and q: "q = p \<or> prefix (p @ [sep_of pl]) q"
  from q have pq: "prefix p q" by (auto simp: prefix_def)
  from b have "prefix (u @ [sep_of pl]) p" "length u + 1 < length p"
    by (simp_all add: below_def)
  with pq have "prefix (u @ [sep_of pl]) q" "length u + 1 < length q"
    using prefix_length_le [OF pq] by (auto intro: prefix_order.trans)
  then show ?thesis by (simp add: below_def)
qed

text \<open>
  C6, as the code has it. The server joins the file name of a request to the one uploads
  directory that all reports share; there is no directory per report. Let the server run
  from an absolute directory, and let the file name, split at the separators of the
  platform, have no segment \<open>..\<close> and at least one segment that names an entry. Then
  the path that \<open>/check-file\<close>, \<open>/generate-pdf\<close> and \<open>/cleanup\<close> compute for it
  lies below the uploads directory, and is not that directory. \<open>/cleanup\<close> removes
  that path and what lies below it, and nothing else: no path that is not below the
  uploads directory changes. The DOCX and PDF paths of \<open>/generate-pdf\<close> come from it
  by replacing the first \<open>.rtf\<close>, then the first \<open>.docx\<close>, of the whole path; the
  DOCX path lies below the uploads directory when the path of that directory does not
  contain \<open>.rtf\<close>, and the PDF path when it contains neither \<open>.rtf\<close> nor
  \<open>.docx\<close>.
\<close>

theorem paths_below_uploads:
  assumes "absolute_dir (platform e) (dirname e)"
      and "proper_name (platform e) f"
  shows "below (platform e) (uploadsDir e) (path_join (platform e) [uploadsDir e, f]) \<and>
         below (platform e) (uploadsDir e) (rtfPath e f) \<and>
         (p \<in> set (files (snd (cleanup e (JStr f) w))) \<longleftrightarrow>
            p \<in> set (files w) \<and>
            \<not> (pathExists (path_join (platform e) [uploadsDir e, f]) w \<and>
               (p = path_join (platform e) [uploadsDir e, f] \<or>
                prefix (path_join (platform e) [uploadsDir e, f] @ [sep_of (platform e)]) p))) \<and>
         (\<not> below (platform e) (uploadsDir e) p \<longrightarrow>
            (p \<in> set (files (snd (cleanup e (JStr f) w))) \<longleftrightarrow> p \<in> set (files w))) \<and>
         (\<not> sublist ''.rtf'' (uploadsDir e) \<longrightarrow>
            below (platform e) (uploadsDir e) (docxPath e f)) \<and>
         (\<not> sublist ''.rtf'' (uploadsDir e) \<and> \<not> sublist ''.docx'' (uploadsDir e) \<longrightarrow>
            below (platform e) (uploadsDir e) (pdfPath e f))"
proof -
  let ?pl = "platform e" and ?U = "uploadsDir e"
  let ?fp = "path_join ?pl [?U, f]"
  obtain t where t: "t \<noteq> []" "?fp = ?U @ sep_of ?pl # t"
    using file_path_shape [OF assms] by blast
  have fp: "below ?pl ?U ?fp"
    unfolding t(2) by (rule below_shape [OF t(1)])
  have rtf: "rtfPath e f = ?fp" by (simp add: rtfPath_def)
  have f: "f \<noteq> []" using assms(2) by (rule proper_name_nonempty)
  note cl = cleanup_files [OF f, of p e w]
  have out: "\<not> below ?pl ?U p \<longrightarrow>
      (p \<in> set (files (snd (cleanup e (JStr f) w))) \<longleftrightarrow> p \<in> set (files w))"
    using cl below_not_self [OF fp, of p] by blast
  have docx: "below ?pl ?U (docxPath e f)" if a: "\<not> sublist ''.rtf'' ?U"
  proof -
    obtain t' where "t' \<noteq> []" "docxPath e f = ?U @ sep_of ?pl # t'"
      using replaced_below [OF t(2) t(1) a, of "''.docx''"] sep_not_in_ext(1) [of ?pl]
      by (auto simp: docxPath_def rtf)
    then show ?thesis by (simp add: below_shape)
  qed
  have pdf: "below ?pl ?U (pdfPath e f)"
    if a: "\<not> sublist ''.rtf'' ?U" and b: "\<not> sublist ''.docx'' ?U"
  proof -
    obtain t' where t': "t' \<noteq> []" "docxPath e f = ?U @ sep_of ?pl # t'"
      using replaced_below [OF t(2) t(1) a, of "''.docx''"] sep_not_in_ext(1) [of ?pl]
      by (auto simp: docxPath_def rtf)
    obtain t'' where "t'' \<noteq> []" "pdfPath e f = ?U @ sep_of ?pl # t''"
      using replaced_below [OF t'(2) t'(1) b, of "''.pdf''"] sep_not_in_ext(2) [of ?pl]
      by (auto simp: pdfPath_def)
    then show ?thesis by (simp add: below_shape)
  qed
  from fp rtf cl out docx pdf show ?thesis by simp
qed

theorem paths_below_uploads_witness:
  "absolute_dir (platform (demo_env 0 0 0 [])) (dirname (demo_env 0 0 0 [])) \<and>
   proper_name (platform (demo_env 0 0 0 [])) ''r.rtf'' \<and>
   \<not> below (platform (demo_env 0 0 0 [])) (uploadsDir (demo_env 0 0 0 [])) ''/srv/app/server/index.js'' \<and>
   \<not> sublist ''.rtf'' (uploadsDir (demo_env 0 0 0 [])) \<and>
   \<not> sublist ''.docx'' (uploadsDir (demo_env 0 0 0 [])) \<and>
   below (platform (demo_env 0 0 0 [])) (uploadsDir (demo_env 0 0 0 []))
     (path_join (platform (demo_env 0 0 0 [])) [uploadsDir (demo_env 0 0 0 []), ''r.rtf'']) \<and>
   below (platform (demo_env 0 0 0 [])) (uploadsDir (demo_env 0 0 0 [])) (rtfPath (demo_env 0 0 0 []) ''r.rtf'') \<and>
   below (platform (demo_env 0 0 0 [])) (uploadsDir (demo_env 0 0 0 [])) (docxPath (demo_env 0 0 0 []) ''r.rtf'') \<and>
   below (platform (demo_env 0 0 0 [])) (uploadsDir (demo_env 0 0 0 [])) (pdfPath (demo_env 0 0 0 []) ''r.rtf'') \<and>
   (''/srv/app/server/index.js'' \<in> set (files (snd (cleanup (demo_env 0 0 0 []) (JStr ''r.rtf'') demo_world)))
      \<longleftrightarrow> ''/srv/app/server/index.js'' \<in> set (files demo_world)) \<and>
   absolute_dir (platform demo_env_win) (dirname demo_env_win) \<and>
   proper_name (platform demo_env_win) ''r.rtf'' \<and>
   \<not> below (platform demo_env_win) (uploadsDir demo_env_win) (to_win ''C:/app/server/index.js'') \<and>
   \<not> sublist ''.rtf'' (uploadsDir demo_env_win) \<and>
   \<not> sublist ''.docx'' (uploadsDir demo_env_win) \<and>
   below (platform demo_env_win) (uploadsDir demo_env_win)
     (path_join (platform demo_env_win) [uploadsDir demo_env_win, ''r.rtf'']) \<and>
   below (platform demo_env_win) (uploadsDir demo_env_win) (docxPath demo_env_win ''r.rtf'') \<and>
   below (platform demo_env_win) (uploadsDir demo_env_win) (pdfPath demo_env_win ''r.rtf'') \<and>
   (to_win ''C:/app/server/index.js'' \<in> set (files (snd (cleanup demo_env_win (JStr ''r.rtf'') demo_world_win)))
      \<longleftrightarrow> to_win ''C:/app/server/index.js'' \<in> set (files demo_world_win))"
proof -
  let ?e = "demo_env 0 0 0 []"
  have h1: "absolute_dir (platform ?e) (dirname ?e)" by code_simp
  have h2: "proper_name (platform ?e) ''r.rtf''" by code_simp
  have h3: "\<not> below (platform ?e) (uploadsDir ?e) ''/srv/app/server/index.js''" by code_simp
  have h4: "\<not> sublist ''.rtf'' (uploadsDir ?e)" by code_simp
  have h5: "\<not> sublist ''.docx'' (uploadsDir ?e)" by code_simp
  have w1: "absolute_dir (platform demo_env_win) (dirname demo_env_win)" by code_simp
  have w2: "proper_name (platform demo_env_win) ''r.rtf''" by code_simp
  have w3: "\<not> below (platform demo_env_win) (uploadsDir demo_env_win) (to_win ''C:/app/server/index.js'')"
    by code_simp
  have w4: "\<not> sublist ''.rtf'' (uploadsDir demo_env_win)" by code_simp
  have w5: "\<not> sublist ''.docx'' (uploadsDir demo_env_win)" by code_simp
  from paths_below_uploads [OF h1 h2, of "''/srv/app/server/index.js''" demo_world]
       paths_below_uploads [OF w1 w2, of "to_win ''C:/app/server/index.js''" demo_world_win]
       h1 h2 h3 h4 h5 w1 w2 w3 w4 w5
  show ?thesis by blast
qed

text \<open>
  The file name is joined to the uploads directory as it comes. In the example
  installation a cleanup of \<open>../index.js\<close> removes the server's \<open>index.js\<close>, on
  Windows also when the name is written with a backslash; and a cleanup of \<open>.\<close>
  removes the uploads directory with the reports \<open>a.rtf\<close> and \<open>b.rtf\<close> in it.
\<close>

theorem cleanup_escapes_uploads_counterexample:
  "path_join (platform (demo_env 0 0 0 [])) [uploadsDir (demo_env 0 0 0 []), ''../index.js''] =
     ''/srv/app/server/index.js'' \<and>
   \<not> below (platform (demo_env 0 0 0 [])) (uploadsDir (demo_env 0 0 0 [])) ''/srv/app/server/index.js'' \<and>
   cleanup (demo_env 0 0 0 []) (JStr ''../index.js'') demo_world =
     (\<lparr>status = 200,
       body = Json (JObj [(''success'', JBool True),
                          (''message'', JStr ''File cleaned up successfully'')])\<rparr>,
      \<lparr>files = [''/srv/app/server/uploads/r.rtf''], spawned = []\<rparr>) \<and>
   path_join (platform demo_env_win) [uploadsDir demo_env_win, to_win ''../index.js''] =
     to_win ''C:/app/server/index.js'' \<and>
   \<not> below (platform demo_env_win) (uploadsDir demo_env_win) (to_win ''C:/app/server/index.js'') \<and>
   cleanup demo_env_win (JStr (to_win ''../index.js'')) demo_world_win =
     (\<lparr>status = 200,
       body = Json (JObj [(''success'', JBool True),
                          (''message'', JStr ''File cleaned up successfully'')])\<rparr>,
      \<lparr>files = [to_win ''C:/app/server/uploads/r.rtf''], spawned = []\<rparr>) \<and>
   path_join (platform (demo_env 0 0 0 [])) [uploadsDir (demo_env 0 0 0 []), ''.''] =
     uploadsDir (demo_env 0 0 0 []) \<and>
   cleanup (demo_env 0 0 0 []) (JStr ''.'') demo_world_two =
     (\<lparr>status = 200,
       body = Json (JObj [(''success'', JBool True),
                          (''message'', JStr ''File cleaned up successfully'')])\<rparr>,
      \<lparr>files = [''/srv/app/server/index.js''], spawned = []\<rparr>)"
  by code_simp

end
